theory Spec2Isabelle
  imports Complex_Main "HOL-Library.Log_Nat"
begin

section \<open>Data model\<close>

text \<open>
  The screens declare three TypeScript interfaces. \<open>Product\<close> of the wishlist screen has
  the fields \<open>id, title, price, image\<close>; \<open>Product\<close> of the shop and product screens adds
  \<open>description\<close> and \<open>category\<close>; \<open>CartItem\<close> of the cart screen adds \<open>quantity\<close>.
  The field \<open>id\<close> is written \<open>ident\<close> here, since \<open>id\<close> is the identity function of HOL.

  A JavaScript \<open>number\<close> is a double. A finite double is kept as the rational it
  denotes; identifiers and quantities are integer-valued doubles and are kept as \<open>int\<close>.
  Comparisons (\<open>< 1\<close>, \<open>===\<close>) are exact; sums and products round, as defined next.
\<close>

record Wishlist_Product =
  ident :: int
  title :: string
  price :: rat
  image_url :: string

record Product = Wishlist_Product +
  description :: string
  category :: string

record CartItem = Wishlist_Product +
  quantity :: int

subsection \<open>JavaScript numbers\<close>

text \<open>
  The arithmetic of the runtime is IEEE 754 binary64 with rounding to nearest, ties to
  even: 53 significant bits, the least exponent \<open>-1022\<close> with subnormal numbers in
  steps of \<open>2^-1074\<close> below it, and a result of magnitude \<open>2^1024\<close> or more is an
  infinity. \<open>binade x\<close> is the exponent \<open>e\<close> with \<open>2^e \<le> x < 2^(e+1)\<close> for a positive
  \<open>x\<close>; \<open>double_round x\<close> is the double nearest to \<open>x\<close> when that is finite.
\<close>

definition binade :: "rat \<Rightarrow> int" where
  "binade x =
     (case quotient_of x of (a, b) \<Rightarrow>
        let d = bitlen a - bitlen b in if 2 powi d \<le> x then d else d - 1)"

definition round_half_even :: "rat \<Rightarrow> int" where
  "round_half_even y =
     (let f = \<lfloor>y\<rfloor>; d = y - of_int f
      in if 1 / 2 < d \<or> (d = 1 / 2 \<and> odd f) then f + 1 else f)"

definition double_round :: "rat \<Rightarrow> rat" where
  "double_round x =
     (if x = 0 then 0
      else let e = max (binade \<bar>x\<bar> - 52) (- 1074)
           in sgn x * of_int (round_half_even (\<bar>x\<bar> / 2 powi e)) * 2 powi e)"

text \<open>
  The sum and the product of two finite doubles: \<open>None\<close> when the result is not finite
  (an infinity; from then on every sum and product is an infinity or \<open>NaN\<close>).
\<close>

definition double_add :: "rat \<Rightarrow> rat \<Rightarrow> rat option" where
  "double_add x y = (let r = double_round (x + y) in if \<bar>r\<bar> < 2 ^ 1024 then Some r else None)"

definition double_mul :: "rat \<Rightarrow> rat \<Rightarrow> rat option" where
  "double_mul x y = (let r = double_round (x * y) in if \<bar>r\<bar> < 2 ^ 1024 then Some r else None)"

text \<open>
  \<open>quantity + 1\<close> and \<open>quantity - 1\<close> on a quantity. The double nearest to an integer
  is an integer, and the sum of a finite double and \<open>1\<close> or \<open>-1\<close> is finite.
\<close>

definition plus_one :: "int \<Rightarrow> int" where
  "plus_one q = \<lfloor>double_round (of_int q + 1)\<rfloor>"

definition minus_one :: "int \<Rightarrow> int" where
  "minus_one q = \<lfloor>double_round (of_int q - 1)\<rfloor>"

subsection \<open>JSON values and stored texts\<close>

text \<open>
  \<open>JSON.parse\<close> and \<open>JSON.stringify\<close> belong to the runtime, not to the repository.
  The code applies exactly two tests to a stored string: its truthiness (only the empty
  string is falsy) and \<open>JSON.parse\<close>. A stored string is therefore represented by what
  these two tests make of it: \<open>Empty\<close> is the empty string, \<open>Malformed\<close> any other string
  on which \<open>JSON.parse\<close> throws, and \<open>Doc v\<close> a string that \<open>JSON.parse\<close> maps to the
  value \<open>v\<close>. \<open>JSON.stringify v\<close> is such a string for the arrays of numbers and of plain
  objects the code writes. The fields of a \<open>JObj\<close> have distinct names, and the number
  of a \<open>JNum\<close> is a finite double.
\<close>

datatype json =
  JNull
  | JBool bool
  | JNum rat
  | JStr string
  | JArr "json list"
  | JObj "(string \<times> json) list"

datatype stored = Empty | Malformed | Doc json

datatype error = StorageReadError | StorageWriteError | SyntaxError | CatalogLookupError

definition JSON_parse :: "stored \<Rightarrow> error + json" where
  "JSON_parse t = (case t of Doc v \<Rightarrow> Inr v | _ \<Rightarrow> Inl SyntaxError)"

definition JSON_stringify :: "json \<Rightarrow> stored" where
  "JSON_stringify v = Doc v"

definition truthy :: "stored \<Rightarrow> bool" where
  "truthy t = (t \<noteq> Empty)"

text \<open>The JSON value of a cart and of a list of identifiers, and the way back.\<close>

definition item_json :: "CartItem \<Rightarrow> json" where
  "item_json item =
     JObj [(''id'', JNum (of_int (ident item))), (''title'', JStr (title item)),
           (''price'', JNum (price item)), (''image'', JStr (image_url item)),
           (''quantity'', JNum (of_int (quantity item)))]"

definition cart_json :: "CartItem list \<Rightarrow> json" where
  "cart_json items = JArr (map item_json items)"

definition ids_json :: "int list \<Rightarrow> json" where
  "ids_json ids = JArr (map (\<lambda>i. JNum (of_int i)) ids)"

fun as_int :: "json \<Rightarrow> int option" where
  "as_int (JNum r) = (if of_int \<lfloor>r\<rfloor> = r then Some \<lfloor>r\<rfloor> else None)"
| "as_int _ = None"

fun as_num :: "json \<Rightarrow> rat option" where
  "as_num (JNum r) = Some r"
| "as_num _ = None"

fun as_str :: "json \<Rightarrow> string option" where
  "as_str (JStr s) = Some s"
| "as_str _ = None"

definition field :: "(string \<times> json) list \<Rightarrow> string \<Rightarrow> (json \<Rightarrow> 'a option) \<Rightarrow> 'a option" where
  "field fs name as = (case map_of fs name of None \<Rightarrow> None | Some v \<Rightarrow> as v)"

fun as_item :: "json \<Rightarrow> CartItem option" where
  "as_item (JObj fs) =
     (case field fs ''id'' as_int of None \<Rightarrow> None | Some i \<Rightarrow>
      case field fs ''title'' as_str of None \<Rightarrow> None | Some t \<Rightarrow>
      case field fs ''price'' as_num of None \<Rightarrow> None | Some p \<Rightarrow>
      case field fs ''image'' as_str of None \<Rightarrow> None | Some im \<Rightarrow>
      case field fs ''quantity'' as_int of None \<Rightarrow> None | Some q \<Rightarrow>
        Some \<lparr>ident = i, title = t, price = p, image_url = im, quantity = q\<rparr>)"
| "as_item _ = None"

fun as_cart :: "json \<Rightarrow> CartItem list option" where
  "as_cart (JArr vs) = those (map as_item vs)"
| "as_cart _ = None"

fun as_ids :: "json \<Rightarrow> int list option" where
  "as_ids (JArr vs) = those (map as_int vs)"
| "as_ids _ = None"

subsection \<open>The persistence adapter\<close>

text \<open>
  \<open>AsyncStorage\<close> is a string-keyed store; \<open>getItem\<close> resolves to the stored string or
  \<open>null\<close> and \<open>setItem\<close> replaces the string under a key. Either call may reject. Whether
  the calls of an operation reject is decided by the environment and recorded in the two
  flags; a rejected write leaves the store as it was.
\<close>

record world =
  disk :: "string \<rightharpoonup> stored"
  read_fails :: bool
  write_fails :: bool

definition getItem :: "world \<Rightarrow> string \<Rightarrow> error + stored option" where
  "getItem w key = (if read_fails w then Inl StorageReadError else Inr (disk w key))"

definition setItem :: "world \<Rightarrow> string \<Rightarrow> stored \<Rightarrow> error + world" where
  "setItem w key t =
     (if write_fails w then Inl StorageWriteError else Inr (w\<lparr>disk := (disk w)(key \<mapsto> t)\<rparr>))"

subsection \<open>What an operation leaves behind\<close>

text \<open>
  An \<open>async\<close> function settles its promise: it resolves, or rejects with the error that
  escaped it. \<open>Unmodelled\<close> marks a run on a stored document that is not of the type the
  TypeScript code assumes for it (\<open>JSON.parse\<close> returns \<open>any\<close>); nothing is claimed
  about such a run. The result of an operation is the store, the component state it
  owns, the lines written by \<open>console.error\<close> and the settlement.
\<close>

datatype settlement = Resolved | Rejected error | Unmodelled

record 'm result =
  world_of :: world
  state_of :: 'm
  console :: "(string \<times> error) list"
  settled :: settlement

definition done_with :: "world \<Rightarrow> 'm \<Rightarrow> 'm result" where
  "done_with w m = \<lparr>world_of = w, state_of = m, console = [], settled = Resolved\<rparr>"

definition caught :: "world \<Rightarrow> 'm \<Rightarrow> string \<Rightarrow> error \<Rightarrow> 'm result" where
  "caught w m msg e = \<lparr>world_of = w, state_of = m, console = [(msg, e)], settled = Resolved\<rparr>"

definition unmodelled :: "world \<Rightarrow> 'm \<Rightarrow> 'm result" where
  "unmodelled w m = \<lparr>world_of = w, state_of = m, console = [], settled = Unmodelled\<rparr>"

section \<open>The cart screen: component \<open>Cart\<close>, app/(tabs)/cart.tsx\<close>

text \<open>
  \<open>loadCart\<close>, lines 29-38. The state setter receives whatever \<open>JSON.parse\<close> returned,
  so the component state is a JSON value here.
\<close>

definition loadCart :: "world \<Rightarrow> json \<Rightarrow> json result" where
  "loadCart w cartItems =
     (case getItem w ''cart'' of
        Inl e \<Rightarrow> caught w cartItems ''Error loading cart:'' e
      | Inr None \<Rightarrow> done_with w cartItems
      | Inr (Some cartData) \<Rightarrow>
          if truthy cartData then
            (case JSON_parse cartData of
               Inl e \<Rightarrow> caught w cartItems ''Error loading cart:'' e
             | Inr v \<Rightarrow> done_with w v)
          else done_with w cartItems)"

text \<open>\<open>updateCart\<close>, lines 40-47: the write first, the state after it.\<close>

definition updateCart :: "CartItem list \<Rightarrow> world \<Rightarrow> CartItem list \<Rightarrow> CartItem list result" where
  "updateCart newCart w cartItems =
     (case setItem w ''cart'' (JSON_stringify (cart_json newCart)) of
        Inl e \<Rightarrow> caught w cartItems ''Error updating cart:'' e
      | Inr w' \<Rightarrow> done_with w' newCart)"

text \<open>
  \<open>updateQuantity\<close>, lines 49-59. \<open>newCart\<close> is the constant of that name: the \<open>map\<close>
  yields \<open>null\<close> for an item whose new quantity is below 1, and \<open>filter(Boolean)\<close>
  drops the \<open>null\<close>s (an object is never falsy).
\<close>

definition newCart :: "int \<Rightarrow> bool \<Rightarrow> CartItem list \<Rightarrow> CartItem list" where
  "newCart k increment cartItems =
     map the (filter (\<lambda>x. x \<noteq> None)
       (map (\<lambda>item.
          if ident item = k then
            (let newQuantity = (if increment then plus_one (quantity item)
                                else minus_one (quantity item))
             in if newQuantity < 1 then None else Some (item\<lparr>quantity := newQuantity\<rparr>))
          else Some item) cartItems))"

definition updateQuantity :: "int \<Rightarrow> bool \<Rightarrow> world \<Rightarrow> CartItem list \<Rightarrow> CartItem list result" where
  "updateQuantity k increment w cartItems = updateCart (newCart k increment cartItems) w cartItems"

text \<open>
  \<open>removeItem\<close>, lines 61-77: the alert offers Cancel and Remove; only Remove runs the
  handler.
\<close>

definition removeItem :: "int \<Rightarrow> bool \<Rightarrow> world \<Rightarrow> CartItem list \<Rightarrow> CartItem list result" where
  "removeItem k remove_pressed w cartItems =
     (if remove_pressed then updateCart (filter (\<lambda>item. ident item \<noteq> k) cartItems) w cartItems
      else done_with w cartItems)"

text \<open>
  \<open>getTotalPrice\<close>, lines 79-81: a \<open>reduce\<close> from \<open>0\<close> with the callback
  \<open>total + item.price * item.quantity\<close>, here \<open>total_plus\<close>. \<open>None\<close> is a total that
  is not finite.
\<close>

definition total_plus :: "rat option \<Rightarrow> CartItem \<Rightarrow> rat option" where
  "total_plus subtotal item =
     (case subtotal of
        None \<Rightarrow> None
      | Some t \<Rightarrow>
          (case double_mul (price item) (of_int (quantity item)) of
             None \<Rightarrow> None
           | Some m \<Rightarrow> double_add t m))"

definition getTotalPrice :: "CartItem list \<Rightarrow> rat option" where
  "getTotalPrice cartItems = foldl total_plus (Some 0) cartItems"

section \<open>The product screen: component \<open>ProductDetails\<close>, src/unnamed/part_000\<close>

text \<open>
  Lines 145-157 of \<open>addToCart\<close>, between the two awaits. \<open>find\<close> returns the first item
  with the product's id, and \<open>existingItem.quantity += 1\<close> changes that very element of
  the array, which is the element at the position where the search stopped.
\<close>

definition addToCart_items :: "'a Wishlist_Product_scheme \<Rightarrow> CartItem list \<Rightarrow> CartItem list" where
  "addToCart_items product cart =
     (case find (\<lambda>item. ident item = ident product) cart of
        Some existingItem \<Rightarrow>
          cart[length (takeWhile (\<lambda>item. ident item \<noteq> ident product) cart) :=
                 existingItem\<lparr>quantity := plus_one (quantity existingItem)\<rparr>]
      | None \<Rightarrow>
          cart @ [\<lparr>ident = ident product, title = title product, price = price product,
                   image_url = image_url product, quantity = 1\<rparr>])"

text \<open>
  The stored cart as the code reads it: \<open>cartData ? JSON.parse(cartData) : []\<close>.
\<close>

definition parse_or_empty :: "stored option \<Rightarrow> error + json" where
  "parse_or_empty data =
     (case data of
        None \<Rightarrow> Inr (JArr [])
      | Some t \<Rightarrow> if truthy t then JSON_parse t else Inr (JArr []))"

text \<open>
  \<open>addToCart\<close>, lines 138-164. The component state is whether the screen has navigated to
  the cart (\<open>router.push\<close>, after the write).
\<close>

definition ProductDetails_addToCart :: "Product option \<Rightarrow> world \<Rightarrow> bool \<Rightarrow> bool result" where
  "ProductDetails_addToCart product w at_cart =
     (case product of
        None \<Rightarrow> done_with w at_cart
      | Some p \<Rightarrow>
          (case getItem w ''cart'' of
             Inl e \<Rightarrow> caught w at_cart ''Error adding to cart:'' e
           | Inr cartData \<Rightarrow>
               (case parse_or_empty cartData of
                  Inl e \<Rightarrow> caught w at_cart ''Error adding to cart:'' e
                | Inr v \<Rightarrow>
                    (case as_cart v of
                       None \<Rightarrow> unmodelled w at_cart
                     | Some cart \<Rightarrow>
                         (case setItem w ''cart''
                                 (JSON_stringify (cart_json (addToCart_items p cart))) of
                            Inl e \<Rightarrow> caught w at_cart ''Error adding to cart:'' e
                          | Inr w' \<Rightarrow> done_with w' True)))))"

text \<open>
  \<open>checkWishlist\<close>, lines 107-117, with \<open>k\<close> for \<open>Number(id)\<close>. The state is the
  flag \<open>isInWishlist\<close>.
\<close>

definition checkWishlist :: "int \<Rightarrow> world \<Rightarrow> bool \<Rightarrow> bool result" where
  "checkWishlist k w isInWishlist =
     (case getItem w ''wishlist'' of
        Inl e \<Rightarrow> caught w isInWishlist ''Error checking wishlist:'' e
      | Inr None \<Rightarrow> done_with w isInWishlist
      | Inr (Some wishlistData) \<Rightarrow>
          if truthy wishlistData then
            (case JSON_parse wishlistData of
               Inl e \<Rightarrow> caught w isInWishlist ''Error checking wishlist:'' e
             | Inr v \<Rightarrow>
                 (case as_ids v of
                    None \<Rightarrow> unmodelled w isInWishlist
                  | Some wishlist \<Rightarrow> done_with w (k \<in> set wishlist)))
          else done_with w isInWishlist)"

text \<open>
  \<open>toggleWishlist\<close>, lines 119-136: the list is read from the store, the branch is
  chosen by the flag, and the flag is negated after the write.
\<close>

definition ProductDetails_toggleWishlist :: "int \<Rightarrow> world \<Rightarrow> bool \<Rightarrow> bool result" where
  "ProductDetails_toggleWishlist k w isInWishlist =
     (case getItem w ''wishlist'' of
        Inl e \<Rightarrow> caught w isInWishlist ''Error updating wishlist:'' e
      | Inr wishlistData \<Rightarrow>
          (case parse_or_empty wishlistData of
             Inl e \<Rightarrow> caught w isInWishlist ''Error updating wishlist:'' e
           | Inr v \<Rightarrow>
               (case as_ids v of
                  None \<Rightarrow> unmodelled w isInWishlist
                | Some wishlist \<Rightarrow>
                    (case (if isInWishlist then
                             setItem w ''wishlist''
                               (JSON_stringify (ids_json (filter (\<lambda>itemId. itemId \<noteq> k) wishlist)))
                           else
                             setItem w ''wishlist'' (JSON_stringify (ids_json (wishlist @ [k])))) of
                       Inl e \<Rightarrow> caught w isInWishlist ''Error updating wishlist:'' e
                     | Inr w' \<Rightarrow> done_with w' (\<not> isInWishlist)))))"

subsection \<open>Two calls of \<open>addToCart\<close> in flight\<close>

text \<open>
  \<open>addToCart\<close> suspends at its two awaits. A call that has not returned is waiting for
  \<open>getItem\<close>, or for \<open>setItem\<close> with the string it computed from what it read.
  \<open>resume\<close> completes the adapter call a task is waiting for and runs the task up to its
  next await; \<open>run\<close> resumes two calls for the same product in the order of a schedule.
\<close>

datatype task = AwaitGetItem | AwaitSetItem stored | Returned settlement

fun resume :: "Product \<Rightarrow> task \<Rightarrow> world \<Rightarrow> task \<times> world" where
  "resume p AwaitGetItem w =
     (case getItem w ''cart'' of
        Inl e \<Rightarrow> (Returned Resolved, w)
      | Inr cartData \<Rightarrow>
          (case parse_or_empty cartData of
             Inl e \<Rightarrow> (Returned Resolved, w)
           | Inr v \<Rightarrow>
               (case as_cart v of
                  None \<Rightarrow> (Returned Unmodelled, w)
                | Some cart \<Rightarrow>
                    (AwaitSetItem (JSON_stringify (cart_json (addToCart_items p cart))), w))))"
| "resume p (AwaitSetItem t) w =
     (case setItem w ''cart'' t of
        Inl e \<Rightarrow> (Returned Resolved, w)
      | Inr w' \<Rightarrow> (Returned Resolved, w'))"
| "resume p (Returned r) w = (Returned r, w)"

datatype call = First | Second

fun run :: "Product \<Rightarrow> call list \<Rightarrow> task \<times> task \<times> world \<Rightarrow> task \<times> task \<times> world" where
  "run p [] s = s"
| "run p (First # cs) (t1, t2, w) = (case resume p t1 w of (t1', w') \<Rightarrow> run p cs (t1', t2, w'))"
| "run p (Second # cs) (t1, t2, w) = (case resume p t2 w of (t2', w') \<Rightarrow> run p cs (t1, t2', w'))"

section \<open>The shop screen: component \<open>Shop\<close>, src/unnamed/part_001\<close>


text \<open>
  \<open>toggleWishlist\<close>, lines 73-84: the new list is computed from the component state,
  the state is set, and the write follows.
\<close>

definition Shop_toggleWishlist :: "int \<Rightarrow> world \<Rightarrow> int list \<Rightarrow> int list result" where
  "Shop_toggleWishlist productId w wishlist =
     (let newWishlist = (if productId \<in> set wishlist
                         then filter (\<lambda>i. i \<noteq> productId) wishlist
                         else wishlist @ [productId])
      in case setItem w ''wishlist'' (JSON_stringify (ids_json newWishlist)) of
           Inl e \<Rightarrow> caught w newWishlist ''Error updating wishlist:'' e
         | Inr w' \<Rightarrow> done_with w' newWishlist)"

section \<open>The wishlist screen: component \<open>Wishlist\<close>, src/unnamed/part_001\<close>

text \<open>
  \<open>Promise.all\<close> fulfils with the values of its promises in their order when every one
  fulfils, and rejects as soon as one rejects. All rejections of the catalog are the same
  error here, so the rejection is read off the first rejected promise of the list.
\<close>

fun Promise_all :: "(error + 'a) list \<Rightarrow> error + 'a list" where
  "Promise_all [] = Inr []"
| "Promise_all (r # rs) =
     (case r of
        Inl e \<Rightarrow> Inl e
      | Inr x \<Rightarrow> (case Promise_all rs of Inl e \<Rightarrow> Inl e | Inr xs \<Rightarrow> Inr (x # xs)))"

text \<open>
  \<open>loadWishlist\<close>, lines 363-379. \<open>axios_get\<close> is the catalog
  request for one product: the product of the response, or the rejection.
\<close>

definition Wishlist_loadWishlist ::
  "(int \<Rightarrow> error + Wishlist_Product) \<Rightarrow> world \<Rightarrow> Wishlist_Product list \<Rightarrow> Wishlist_Product list result" where
  "Wishlist_loadWishlist axios_get w wishlistItems =
     (case getItem w ''wishlist'' of
        Inl e \<Rightarrow> caught w wishlistItems ''Error loading wishlist:'' e
      | Inr None \<Rightarrow> done_with w wishlistItems
      | Inr (Some wishlistData) \<Rightarrow>
          if truthy wishlistData then
            (case JSON_parse wishlistData of
               Inl e \<Rightarrow> caught w wishlistItems ''Error loading wishlist:'' e
             | Inr v \<Rightarrow>
                 (case as_ids v of
                    None \<Rightarrow> unmodelled w wishlistItems
                  | Some wishlistIds \<Rightarrow>
                      (case Promise_all (map axios_get wishlistIds) of
                         Inl e \<Rightarrow> caught w wishlistItems ''Error loading wishlist:'' e
                       | Inr products \<Rightarrow> done_with w products)))
          else done_with w wishlistItems)"

text \<open>\<open>removeFromWishlist\<close>, lines 381-393.\<close>

definition removeFromWishlist ::
  "int \<Rightarrow> world \<Rightarrow> Wishlist_Product list \<Rightarrow> Wishlist_Product list result" where
  "removeFromWishlist productId w wishlistItems =
     (case getItem w ''wishlist'' of
        Inl e \<Rightarrow> caught w wishlistItems ''Error removing from wishlist:'' e
      | Inr None \<Rightarrow> done_with w wishlistItems
      | Inr (Some wishlistData) \<Rightarrow>
          if truthy wishlistData then
            (case JSON_parse wishlistData of
               Inl e \<Rightarrow> caught w wishlistItems ''Error removing from wishlist:'' e
             | Inr v \<Rightarrow>
                 (case as_ids v of
                    None \<Rightarrow> unmodelled w wishlistItems
                  | Some wishlistIds \<Rightarrow>
                      (case setItem w ''wishlist''
                              (JSON_stringify (ids_json (filter (\<lambda>i. i \<noteq> productId) wishlistIds))) of
                         Inl e \<Rightarrow> caught w wishlistItems ''Error removing from wishlist:'' e
                       | Inr w' \<Rightarrow>
                           done_with w' (filter (\<lambda>item. ident item \<noteq> productId) wishlistItems))))
          else done_with w wishlistItems)"

text \<open>
  \<open>addToCart\<close>, lines 395-413. The new item is \<open>{ ...product, quantity: 1 }\<close>: the
  fields of the product, extended by the quantity.
\<close>

definition Wishlist_addToCart_items :: "Wishlist_Product \<Rightarrow> CartItem list \<Rightarrow> CartItem list" where
  "Wishlist_addToCart_items product cart =
     (case find (\<lambda>item. ident item = ident product) cart of
        Some existingItem \<Rightarrow>
          cart[length (takeWhile (\<lambda>item. ident item \<noteq> ident product) cart) :=
                 existingItem\<lparr>quantity := plus_one (quantity existingItem)\<rparr>]
      | None \<Rightarrow> cart @ [Wishlist_Product.extend product (CartItem.fields 1)])"

definition Wishlist_addToCart :: "Wishlist_Product \<Rightarrow> world \<Rightarrow> bool \<Rightarrow> bool result" where
  "Wishlist_addToCart product w at_cart =
     (case getItem w ''cart'' of
        Inl e \<Rightarrow> caught w at_cart ''Error adding to cart:'' e
      | Inr cartData \<Rightarrow>
          (case parse_or_empty cartData of
             Inl e \<Rightarrow> caught w at_cart ''Error adding to cart:'' e
           | Inr v \<Rightarrow>
               (case as_cart v of
                  None \<Rightarrow> unmodelled w at_cart
                | Some cart \<Rightarrow>
                    (case setItem w ''cart''
                            (JSON_stringify (cart_json (Wishlist_addToCart_items product cart))) of
                       Inl e \<Rightarrow> caught w at_cart ''Error adding to cart:'' e
                     | Inr w' \<Rightarrow> done_with w' True))))"

section \<open>The persisted records and the reachable states\<close>

text \<open>
  The cart record and the wishlist record are what a reader of the store gets under the
  two keys: \<open>None\<close> when the string cannot be parsed or is not of the record's type.
\<close>

definition persisted_cart :: "world \<Rightarrow> CartItem list option" where
  "persisted_cart w = (case parse_or_empty (disk w ''cart'') of Inl e \<Rightarrow> None | Inr v \<Rightarrow> as_cart v)"

definition persisted_wishlist :: "world \<Rightarrow> int list option" where
  "persisted_wishlist w =
     (case parse_or_empty (disk w ''wishlist'') of Inl e \<Rightarrow> None | Inr v \<Rightarrow> as_ids v)"

text \<open>
  The true total of a cart, in exact arithmetic. A rational is \<open>normal\<close> when it is \<open>0\<close>
  or at least the least normal double; \<open>unit_roundoff\<close> is half the distance between 1
  and the next double.
\<close>

definition true_total :: "CartItem list \<Rightarrow> rat" where
  "true_total cartItems = (\<Sum>item\<leftarrow>cartItems. price item * of_int (quantity item))"

definition normal :: "rat \<Rightarrow> bool" where
  "normal x = (x = 0 \<or> 1 / 2 ^ 1022 \<le> x)"

definition unit_roundoff :: rat where
  "unit_roundoff = 1 / 2 ^ 53"

definition fresh :: world where
  "fresh = \<lparr>disk = Map.empty, read_fails = False, write_fails = False\<rparr>"

text \<open>
  The states the cart can reach: the store together with the state \<open>cartItems\<close> of the
  cart screen. The store starts empty; the environment may change the health of the
  adapter and the other screens may write under other keys; the cart screen mounts with
  an empty state, loads, changes a quantity and removes an item; the product screen and
  the wishlist screen add to the stored cart.
\<close>

inductive reachable :: "world \<Rightarrow> CartItem list \<Rightarrow> bool" where
  start: "reachable fresh []"
| adapter: "reachable w m \<Longrightarrow> reachable (w\<lparr>read_fails := r_fails, write_fails := w_fails\<rparr>) m"
| other_key: "reachable w m \<Longrightarrow> key \<noteq> ''cart'' \<Longrightarrow> reachable (w\<lparr>disk := (disk w)(key := x)\<rparr>) m"
| mount: "reachable w m \<Longrightarrow> reachable w []"
| load: "reachable w m \<Longrightarrow> as_cart (state_of (loadCart w (cart_json m))) = Some m' \<Longrightarrow> reachable w m'"
| change: "reachable w m \<Longrightarrow> reachable (world_of (updateQuantity k inc w m)) (state_of (updateQuantity k inc w m))"
| remove: "reachable w m \<Longrightarrow> reachable (world_of (removeItem k pressed w m)) (state_of (removeItem k pressed w m))"
| add: "reachable w m \<Longrightarrow> reachable (world_of (ProductDetails_addToCart (Some p) w b)) m"
| add_from_wishlist: "reachable w m \<Longrightarrow> reachable (world_of (Wishlist_addToCart q w b)) m"

section \<open>Sample data\<close>

text \<open>
  The values at which the theorems below are instantiated: a product of the catalog, the
  line items made from it, a product shown by the wishlist screen, and a store holding a
  given cart.
\<close>

definition widget :: Product where
  "widget = \<lparr>ident = 3, title = ''Widget'', price = 79 / 4, image_url = ''https://img/3'',
              description = ''A widget'', category = ''tools''\<rparr>"

definition widget_item :: "int \<Rightarrow> CartItem" where
  "widget_item n = \<lparr>ident = 3, title = ''Widget'', price = 79 / 4, image_url = ''https://img/3'',
              quantity = n\<rparr>"

definition gadget_item :: "int \<Rightarrow> CartItem" where
  "gadget_item n = \<lparr>ident = 7, title = ''Gadget'', price = 5, image_url = ''https://img/7'',
              quantity = n\<rparr>"

definition wished :: Wishlist_Product where
  "wished = \<lparr>ident = 7, title = ''Gadget'', price = 5, image_url = ''https://img/7''\<rparr>"

definition holding :: "CartItem list \<Rightarrow> world" where
  "holding c = \<lparr>disk = [''cart'' \<mapsto> Doc (cart_json c)], read_fails = False, write_fails = False\<rparr>"

text \<open>
  A store holding a given wishlist; a store whose two strings are valid JSON of another
  shape (an object under \<open>cart\<close>, a string under \<open>wishlist\<close>); a store whose strings
  are not JSON; a catalog that has every product but number 2; a cart of two items of
  which one costs \<open>2^53\<close>; the store after the wishlist screen has added the gadget to
  the cart, and after the product screen has then added the widget; an adapter that
  rejects writes; a store holding a cart and a wishlist.
\<close>

definition wishing :: "int list \<Rightarrow> world" where
  "wishing ids = \<lparr>disk = [''wishlist'' \<mapsto> Doc (ids_json ids)], read_fails = False, write_fails = False\<rparr>"



definition catalog :: "int \<Rightarrow> error + Wishlist_Product" where
  "catalog i =
     (if i = 2 then Inl CatalogLookupError
      else Inr \<lparr>ident = i, title = ''Product'', price = 5, image_url = ''https://img''\<rparr>)"

definition costly :: "CartItem list" where
  "costly = [\<lparr>ident = 1, title = ''Estate'', price = 9007199254740992, image_url = ''https://img/1'',
               quantity = 1\<rparr>,
             \<lparr>ident = 2, title = ''Token'', price = 1, image_url = ''https://img/2'', quantity = 1\<rparr>]"



definition write_failing :: "world \<Rightarrow> world" where
  "write_failing w = w\<lparr>write_fails := True\<rparr>"

definition stocked :: world where
  "stocked = \<lparr>disk = [''cart'' \<mapsto> Doc (cart_json [widget_item 1]), ''wishlist'' \<mapsto> Doc (ids_json [5])],
              read_fails = False, write_fails = False\<rparr>"

section \<open>Properties\<close>

subsection \<open>Rounding to a double\<close>

lemma bitlen_powi:
  assumes "0 < a"
  shows "(2::rat) powi (bitlen a - 1) \<le> of_int a" "of_int a < (2::rat) powi bitlen a"
proof -
  from assms have b1: "1 \<le> bitlen a" by (auto simp: bitlen_alt_def)
  from bitlen_bounds[OF assms] have le: "2 ^ nat (bitlen a - 1) \<le> a" and lt: "a < 2 ^ nat (bitlen a)"
    by auto
  from le have "(of_int (2 ^ nat (bitlen a - 1)) :: rat) \<le> of_int a" by (simp only: of_int_le_iff)
  then show "(2::rat) powi (bitlen a - 1) \<le> of_int a" using b1 by (simp add: power_int_def)
  from lt have "(of_int a :: rat) < of_int (2 ^ nat (bitlen a))" by (simp only: of_int_less_iff)
  then show "of_int a < (2::rat) powi bitlen a" using b1 by (simp add: power_int_def)
qed

lemma binade_bounds:
  assumes "0 < x"
  shows "2 powi binade x \<le> x" "x < 2 powi (binade x + 1)"
proof -
  obtain a b where q: "quotient_of x = (a, b)" by (cases "quotient_of x")
  then have b: "0 < b" and x: "x = of_int a / of_int b"
    using quotient_of_denom_pos[OF q] quotient_of_div[OF q] by auto
  with assms have a: "0 < a" by (simp add: zero_less_divide_iff)
  let ?d = "bitlen a - bitlen b"
  note A = bitlen_powi[OF a] and B = bitlen_powi[OF b]
  have bpos: "(0::rat) < of_int b" using b by simp
  have lo: "2 powi (?d - 1) < x"
  proof -
    have "2 powi (?d - 1) * of_int b < 2 powi (?d - 1) * (2::rat) powi bitlen b"
      using B(2) by (simp add: zero_less_power_int)
    also have "\<dots> = 2 powi (bitlen a - 1)" by (simp add: power_int_add[symmetric])
    also have "\<dots> \<le> of_int a" by (rule A(1))
    finally show ?thesis using bpos by (simp add: x pos_less_divide_eq)
  qed
  have hi: "x < 2 powi (?d + 1)"
  proof -
    have "of_int a < (2::rat) powi bitlen a" by (rule A(2))
    also have "\<dots> = 2 powi (?d + 1) * 2 powi (bitlen b - 1)" by (simp add: power_int_add[symmetric])
    also have "\<dots> \<le> 2 powi (?d + 1) * of_int b"
      using B(1) by (simp add: zero_less_power_int)
    finally show ?thesis using bpos by (simp add: x pos_divide_less_eq)
  qed
  have bin: "binade x = (if 2 powi ?d \<le> x then ?d else ?d - 1)"
    by (simp add: binade_def q Let_def)
  show "2 powi binade x \<le> x" using lo by (simp add: bin)
  show "x < 2 powi (binade x + 1)" using hi by (simp add: bin)
qed


lemma powi2_less_D: "(2::rat) powi k < 2 powi m \<Longrightarrow> k < m"
  using power_int_increasing[of m k "2::rat"] by (cases "k < m") auto

lemma binade_unique:
  assumes "0 < x" "2 powi k \<le> x" "x < 2 powi (k + 1)"
  shows "binade x = k"
proof -
  note b = binade_bounds[OF assms(1)]
  have "(2::rat) powi k < 2 powi (binade x + 1)" using assms(2) b(2) by simp
  then have 1: "k < binade x + 1" by (rule powi2_less_D)
  have "(2::rat) powi binade x < 2 powi (k + 1)" using assms(3) b(1) by simp
  then have 2: "binade x < k + 1" by (rule powi2_less_D)
  from 1 2 show ?thesis by simp
qed

lemma binade_ge:
  assumes "0 < x" "2 powi k \<le> x"
  shows "k \<le> binade x"
proof -
  have "(2::rat) powi k < 2 powi (binade x + 1)" using assms(2) binade_bounds(2)[OF assms(1)] by simp
  then have "k < binade x + 1" by (rule powi2_less_D)
  then show ?thesis by simp
qed

lemma round_half_even_bounds:
  "\<bar>of_int (round_half_even y) - y\<bar> \<le> 1 / 2" "of_int \<lfloor>y\<rfloor> \<le> (of_int (round_half_even y) :: rat)"
proof -
  have f: "of_int \<lfloor>y\<rfloor> \<le> y" "y < of_int \<lfloor>y\<rfloor> + 1" by linarith+
  show "\<bar>of_int (round_half_even y) - y\<bar> \<le> 1 / 2"
    using f unfolding round_half_even_def Let_def by (auto simp add: abs_le_iff)
  show "of_int \<lfloor>y\<rfloor> \<le> (of_int (round_half_even y) :: rat)"
    unfolding round_half_even_def Let_def by auto
qed

lemma round_half_even_of_int: "round_half_even (of_int n) = n"
  by (simp add: round_half_even_def)

lemma double_round_0: "double_round 0 = 0"
  by (simp add: double_round_def)


lemma double_round_pos_form:
  assumes "0 < x"
  shows "double_round x = of_int (round_half_even (x / 2 powi max (binade x - 52) (- 1074))) * 2 powi max (binade x - 52) (- 1074)"
  using assms by (simp add: double_round_def Let_def)

lemma double_round_minus: "double_round (- x) = - double_round x"
  by (simp add: double_round_def Let_def)

lemma double_round_error:
  assumes "1 / 2 ^ 1022 \<le> x"
  shows "\<bar>double_round x - x\<bar> \<le> x / 2 ^ 53"
proof -
  have pos: "0 < x" using assms by (rule less_le_trans[rotated]) simp
  have "(2::rat) powi (- 1022) \<le> x" using assms by (simp add: power_int_minus_divide)
  then have E: "- 1022 \<le> binade x" by (rule binade_ge[OF pos])
  define e where "e = binade x - 52"
  from E have m: "max (binade x - 52) (- 1074) = e" by (simp add: e_def)
  define y where "y = x / 2 powi e"
  have p: "(0::rat) < 2 powi e" by (simp add: zero_less_power_int)
  have x: "x = y * 2 powi e" using p by (simp add: y_def)
  have rd: "double_round x = of_int (round_half_even y) * 2 powi e"
    by (simp add: double_round_pos_form[OF pos] m y_def)
  have "double_round x - x = (of_int (round_half_even y) - y) * 2 powi e"
    by (simp add: rd left_diff_distrib x[symmetric])
  then have "\<bar>double_round x - x\<bar> = \<bar>of_int (round_half_even y) - y\<bar> * 2 powi e"
    using p by (simp add: abs_mult)
  also have "\<dots> \<le> 1 / 2 * 2 powi e"
    using round_half_even_bounds(1)[of y] p by (intro mult_right_mono) simp_all
  also have "\<dots> = 2 powi binade x / 2 ^ 53"
    by (simp add: e_def power_int_diff)
  also have "\<dots> \<le> x / 2 ^ 53"
    using binade_bounds(1)[OF pos] by (simp add: divide_right_mono)
  finally show ?thesis .
qed

lemma double_round_ge_powi:
  assumes "0 < x" "2 powi k \<le> x" "- 1022 \<le> k"
  shows "2 powi k \<le> double_round x"
proof -
  from binade_ge[OF assms(1,2)] have kE: "k \<le> binade x" .
  define e where "e = binade x - 52"
  from kE assms(3) have m: "max (binade x - 52) (- 1074) = e" by (simp add: e_def)
  define y where "y = x / 2 powi e"
  have p: "(0::rat) < 2 powi e" by (simp add: zero_less_power_int)
  have rd: "double_round x = of_int (round_half_even y) * 2 powi e"
    by (simp add: double_round_pos_form[OF assms(1)] m y_def)
  have "2 powi binade x \<le> x" by (rule binade_bounds(1)[OF assms(1)])
  then have "2 powi binade x / 2 powi e \<le> y" using p by (simp add: y_def divide_right_mono)
  then have "(2::rat) ^ 52 \<le> y" by (simp add: e_def power_int_diff)
  then have "(of_int (2 ^ 52) :: rat) \<le> y" by simp
  then have "(2::int) ^ 52 \<le> \<lfloor>y\<rfloor>" by (simp only: le_floor_iff)
  then have "(of_int (2 ^ 52) :: rat) \<le> of_int \<lfloor>y\<rfloor>" by (simp only: of_int_le_iff)
  also have "\<dots> \<le> of_int (round_half_even y)" by (rule round_half_even_bounds(2))
  finally have "(2::rat) ^ 52 * 2 powi e \<le> of_int (round_half_even y) * 2 powi e"
    using p by (intro mult_right_mono) simp_all
  then have "2 powi binade x \<le> double_round x"
    by (simp add: rd e_def power_int_diff)
  moreover have "(2::rat) powi k \<le> 2 powi binade x" using kE by (intro power_int_increasing) simp_all
  ultimately show ?thesis by simp
qed

lemma double_round_of_int:
  assumes "\<bar>n\<bar> \<le> 2 ^ 53"
  shows "double_round (of_int n) = of_int n"
proof -
  have nonneg: "double_round (of_int n) = of_int n" if n: "0 < n" "n \<le> 2 ^ 53" for n :: int
  proof -
    have pos: "(0::rat) < of_int n" using n by simp
    define e where "e = max (binade (of_int n) - 52) (- 1074)"
    have "(of_int n :: rat) \<le> of_int (2 ^ 53)" using n(2) by (simp only: of_int_le_iff)
    then have le: "(of_int n :: rat) \<le> 2 powi 53" by simp
    have e1: "e \<le> 1"
    proof -
      have "(2::rat) powi binade (of_int n) \<le> 2 powi 53" using binade_bounds(1)[OF pos] le by simp
      then have "(2::rat) powi binade (of_int n) < 2 powi 54"
        by (rule le_less_trans) simp
      then have "binade (of_int n) < 54" by (rule powi2_less_D)
      then show ?thesis by (simp add: e_def)
    qed
    have "\<exists>k. of_int n / (2::rat) powi e = of_int k"
    proof (cases "e \<le> 0")
      case True
      then have "of_int n / (2::rat) powi e = of_int (n * 2 ^ nat (- e))"
        by (simp add: power_int_def field_simps)
      then show ?thesis ..
    next
      case False
      with e1 have e: "e = 1" by simp
      then have "52 < binade (of_int n)" by (simp add: e_def split: if_splits)
      then have "53 \<le> binade (of_int n)" by simp
      then have "(2::rat) powi 53 \<le> 2 powi binade (of_int n)" by (intro power_int_increasing) simp_all
      with binade_bounds(1)[OF pos] le have "(of_int n :: rat) = 2 powi 53" by simp
      then have "of_int n / (2::rat) powi e = of_int (2 ^ 52)" by (simp add: e)
      then show ?thesis ..
    qed
    then obtain k where k: "of_int n / (2::rat) powi e = of_int k" ..
    have p: "(2::rat) powi e \<noteq> 0" by simp
    have "double_round (of_int n) = of_int (round_half_even (of_int n / 2 powi e)) * 2 powi e"
      by (simp add: double_round_pos_form[OF pos] e_def)
    also have "\<dots> = of_int n / 2 powi e * 2 powi e"
      by (simp only: k round_half_even_of_int)
    also have "\<dots> = of_int n" using p by simp
    finally show ?thesis .
  qed
  consider "n = 0" | "0 < n" | "n < 0" by linarith
  then show ?thesis
  proof cases
    case 1
    then show ?thesis by (simp add: double_round_0)
  next
    case 2
    with assms nonneg[of n] show ?thesis by simp
  next
    case 3
    with assms nonneg[of "- n"] double_round_minus[of "of_int (- n)"] show ?thesis by simp
  qed
qed

lemma double_round_example: "double_round 9007199254740993 = 9007199254740992"
proof -
  have b: "binade 9007199254740993 = 53" by (rule binade_unique) simp_all
  have f: "\<lfloor>9007199254740993 / 2 :: rat\<rfloor> = 4503599627370496" by (rule floor_unique) simp_all
  show ?thesis by (simp add: double_round_def b round_half_even_def Let_def f)
qed

lemma plus_one_exact: "\<bar>q\<bar> < 2 ^ 53 \<Longrightarrow> plus_one q = q + 1"
proof -
  assume "\<bar>q\<bar> < 2 ^ 53"
  then have "\<bar>q + 1\<bar> \<le> 2 ^ 53" by simp
  from double_round_of_int[OF this] show ?thesis by (simp add: plus_one_def)
qed



lemma plus_one_stays: "plus_one 9007199254740992 = 9007199254740992"
  by (simp add: plus_one_def double_round_example)

subsection \<open>The computed carts and the JSON round trip\<close>

lemma newCart_Nil: "newCart k inc [] = []"
  by (simp add: newCart_def)

lemma newCart_Cons:
  "newCart k inc (x # xs) =
     (if ident x = k then
        (if (if inc then plus_one (quantity x) else minus_one (quantity x)) < 1 then newCart k inc xs
         else x\<lparr>quantity := (if inc then plus_one (quantity x) else minus_one (quantity x))\<rparr> # newCart k inc xs)
      else x # newCart k inc xs)"
  by (simp add: newCart_def Let_def)

lemma those_map_Some: "those (map Some xs) = Some xs"
  by (induction xs) simp_all

lemma as_item_item_json: "as_item (item_json x) = Some x"
  by (simp add: item_json_def field_def)

lemma as_cart_cart_json: "as_cart (cart_json c) = Some c"
  by (simp add: cart_json_def comp_def those_map_Some as_item_item_json)

lemma as_ids_ids_json: "as_ids (ids_json c) = Some c"
  by (simp add: ids_json_def comp_def those_map_Some)

lemma extend_product:
  "Wishlist_Product.extend product (CartItem.fields 1) =
     \<lparr>ident = ident product, title = title product, price = price product,
      image_url = image_url product, quantity = 1\<rparr>"
  by (simp add: Wishlist_Product.extend_def CartItem.fields_def CartItem.defs Wishlist_Product.defs)

lemma Wishlist_addToCart_items_eq: "Wishlist_addToCart_items product cart = addToCart_items product cart"
  unfolding Wishlist_addToCart_items_def addToCart_items_def extend_product ..

lemma addToCart_items_Nil:
  "addToCart_items p [] =
     [\<lparr>ident = ident p, title = title p, price = price p, image_url = image_url p, quantity = 1\<rparr>]"
  by (simp add: addToCart_items_def)

lemma addToCart_items_Cons:
  "addToCart_items p (x # xs) =
     (if ident x = ident p then x\<lparr>quantity := plus_one (quantity x)\<rparr> # xs else x # addToCart_items p xs)"
  by (auto simp add: addToCart_items_def split: option.splits)

lemma addToCart_items_absent:
  "ident p \<notin> ident ` set cart \<Longrightarrow>
     addToCart_items p cart =
       cart @ [\<lparr>ident = ident p, title = title p, price = price p, image_url = image_url p, quantity = 1\<rparr>]"
  by (induction cart) (auto simp add: addToCart_items_Nil addToCart_items_Cons)

lemma addToCart_items_present:
  "ident p \<in> ident ` set cart \<Longrightarrow>
     \<exists>n<length cart. ident (cart ! n) = ident p \<and> (\<forall>j<n. ident (cart ! j) \<noteq> ident p) \<and>
       addToCart_items p cart = cart[n := (cart ! n)\<lparr>quantity := plus_one (quantity (cart ! n))\<rparr>]"
proof (induction cart)
  case Nil
  then show ?case by simp
next
  case (Cons x xs)
  show ?case
  proof (cases "ident x = ident p")
    case True
    then have "addToCart_items p (x # xs) = (x # xs)[0 := ((x # xs) ! 0)\<lparr>quantity := plus_one (quantity ((x # xs) ! 0))\<rparr>]"
      by (simp add: addToCart_items_Cons)
    with True show ?thesis by (intro exI[of _ 0]) simp
  next
    case False
    with Cons.prems have "ident p \<in> ident ` set xs" by auto
    from Cons.IH[OF this] obtain n where n: "n < length xs" "ident (xs ! n) = ident p"
      "\<forall>j<n. ident (xs ! j) \<noteq> ident p"
      "addToCart_items p xs = xs[n := (xs ! n)\<lparr>quantity := plus_one (quantity (xs ! n))\<rparr>]" by blast
    have "\<forall>j<Suc n. ident ((x # xs) ! j) \<noteq> ident p"
      using n(3) False by (auto simp add: nth_Cons split: nat.splits)
    moreover have "addToCart_items p (x # xs) =
        (x # xs)[Suc n := ((x # xs) ! Suc n)\<lparr>quantity := plus_one (quantity ((x # xs) ! Suc n))\<rparr>]"
      using False n(4) by (simp add: addToCart_items_Cons)
    ultimately show ?thesis using n(1,2) by (intro exI[of _ "Suc n"]) simp
  qed
qed

lemma length_addToCart_items:
  "ident p \<in> ident ` set cart \<Longrightarrow> length (addToCart_items p cart) = length cart"
  by (induction cart) (auto simp add: addToCart_items_Cons)

subsection \<open>Adding to the cart\<close>

lemma persisted_cart_written:
  "persisted_cart (w\<lparr>disk := (disk w)(''cart'' \<mapsto> JSON_stringify (cart_json c))\<rparr>) = Some c"
  by (simp add: persisted_cart_def parse_or_empty_def JSON_stringify_def JSON_parse_def truthy_def as_cart_cart_json)

lemma persisted_cart_fresh: "persisted_cart fresh = Some []"
  by (simp add: persisted_cart_def fresh_def parse_or_empty_def)

lemma persisted_cart_cases:
  "persisted_cart w = Some c \<Longrightarrow> parse_or_empty (disk w ''cart'') = Inr v \<Longrightarrow> as_cart v = Some c"
  by (simp add: persisted_cart_def)

lemma ProductDetails_addToCart_persists:
  assumes "\<not> read_fails w" "\<not> write_fails w" "persisted_cart w = Some cart"
  shows "persisted_cart (world_of (ProductDetails_addToCart (Some p) w b)) = Some (addToCart_items p cart)"
proof -
  from assms(3) obtain v where v: "parse_or_empty (disk w ''cart'') = Inr v" "as_cart v = Some cart"
    by (auto simp add: persisted_cart_def split: sum.splits)
  then show ?thesis using assms(1,2)
    by (simp add: ProductDetails_addToCart_def getItem_def setItem_def done_with_def persisted_cart_written)
qed

lemma Wishlist_addToCart_persists:
  assumes "\<not> read_fails w" "\<not> write_fails w" "persisted_cart w = Some cart"
  shows "persisted_cart (world_of (Wishlist_addToCart p w b)) = Some (Wishlist_addToCart_items p cart)"
proof -
  from assms(3) obtain v where v: "parse_or_empty (disk w ''cart'') = Inr v" "as_cart v = Some cart"
    by (auto simp add: persisted_cart_def split: sum.splits)
  then show ?thesis using assms(1,2)
    by (simp add: Wishlist_addToCart_def getItem_def setItem_def done_with_def persisted_cart_written)
qed

lemma persisted_cart_holding: "persisted_cart (holding c) = Some c"
  by (simp add: holding_def persisted_cart_def parse_or_empty_def truthy_def JSON_parse_def as_cart_cart_json)

text \<open>
  Claim C6, as stated, fails. The quantity of a line item is a double: at \<open>2^53\<close> the
  sum \<open>quantity + 1\<close> rounds back to \<open>2^53\<close>, and \<open>addToCart\<close> stores the quantity
  it found.
\<close>

theorem C6_addOrIncrement_counterexample:
  "addToCart_items widget [widget_item 9007199254740992] = [widget_item 9007199254740992]
   \<and> Wishlist_addToCart_items wished [gadget_item 9007199254740992] = [gadget_item 9007199254740992]
   \<and> persisted_cart (world_of (ProductDetails_addToCart (Some widget)
                                  (holding [widget_item 9007199254740992]) False)) =
        Some [widget_item 9007199254740992]"
proof -
  have a: "addToCart_items widget [widget_item 9007199254740992] = [widget_item 9007199254740992]"
    by (simp add: addToCart_items_Cons widget_def widget_item_def plus_one_stays)
  have b: "Wishlist_addToCart_items wished [gadget_item 9007199254740992] =
      [gadget_item 9007199254740992]"
    by (simp add: Wishlist_addToCart_items_eq addToCart_items_Cons wished_def gadget_item_def
        plus_one_stays)
  have h: "\<not> read_fails (holding [widget_item 9007199254740992])"
    "\<not> write_fails (holding [widget_item 9007199254740992])"
    by (simp_all add: holding_def)
  from ProductDetails_addToCart_persists[OF h persisted_cart_holding] a b
  show ?thesis by simp
qed

text \<open>
  Claim C6, amended. \<open>addToCart\<close> of the product screen and of the wishlist screen: when
  the cart holds an item with the product's id, the first such item gets as its quantity
  the double nearest to its quantity plus 1, which is exactly one more whenever the
  quantity is below \<open>2^53\<close> in magnitude, and the cart keeps its length; otherwise one
  item is appended at the end, with quantity 1 and the id, title, price and image of the
  product. With a working adapter the cart so computed from the persisted cart is the
  persisted cart afterwards.
\<close>

theorem C6_addOrIncrement:
  "(ident (product :: Product) \<in> ident ` set cart \<longrightarrow>
      (\<exists>n<length cart. ident (cart ! n) = ident product \<and> (\<forall>j<n. ident (cart ! j) \<noteq> ident product) \<and>
         addToCart_items product cart = cart[n := (cart ! n)\<lparr>quantity := plus_one (quantity (cart ! n))\<rparr>]) \<and>
      length (addToCart_items product cart) = length cart)
   \<and> (\<bar>q\<bar> < 2 ^ 53 \<longrightarrow> plus_one q = q + 1)
   \<and> (ident product \<notin> ident ` set cart \<longrightarrow>
        addToCart_items product cart =
          cart @ [\<lparr>ident = ident product, title = title product, price = price product,
                   image_url = image_url product, quantity = 1\<rparr>])
   \<and> Wishlist_addToCart_items wproduct cart = addToCart_items wproduct cart
   \<and> (\<not> read_fails w \<and> \<not> write_fails w \<and> persisted_cart w = Some cart \<longrightarrow>
        persisted_cart (world_of (ProductDetails_addToCart (Some product) w b)) =
          Some (addToCart_items product cart) \<and>
        persisted_cart (world_of (Wishlist_addToCart wproduct w b)) =
          Some (addToCart_items wproduct cart))"
  using addToCart_items_present[of product cart] length_addToCart_items[of product cart]
    addToCart_items_absent[of product cart] Wishlist_addToCart_items_eq[of wproduct cart]
    ProductDetails_addToCart_persists[of w cart product b] Wishlist_addToCart_persists[of w cart wproduct b]
    plus_one_exact[of q]
  by simp

theorem C6_addOrIncrement_witness:
  "addToCart_items widget [] = [widget_item 1]
   \<and> persisted_cart (world_of (ProductDetails_addToCart (Some widget) fresh False)) = Some [widget_item 1]
   \<and> persisted_cart (world_of (Wishlist_addToCart wished fresh False)) = Some [gadget_item 1]
   \<and> length (addToCart_items widget [gadget_item 2, widget_item 1]) = 2
   \<and> plus_one 1 = 2
   \<and> persisted_cart (world_of (ProductDetails_addToCart (Some widget) (holding [gadget_item 2, widget_item 1]) False)) =
        Some [gadget_item 2, widget_item 2]"
proof -
  have absent: "ident widget \<notin> ident ` set []" by simp
  have present: "ident widget \<in> ident ` set [gadget_item 2, widget_item 1]"
    by (simp add: widget_def widget_item_def)
  have small: "\<bar>1 :: int\<bar> < 2 ^ 53" by simp
  have ok: "\<not> read_fails fresh \<and> \<not> write_fails fresh \<and> persisted_cart fresh = Some []"
    by (simp add: persisted_cart_fresh) (simp add: fresh_def)
  have ok2: "\<not> read_fails (holding [gadget_item 2, widget_item 1]) \<and>
      \<not> write_fails (holding [gadget_item 2, widget_item 1]) \<and>
      persisted_cart (holding [gadget_item 2, widget_item 1]) = Some [gadget_item 2, widget_item 1]"
    by (simp add: persisted_cart_holding) (simp add: holding_def)
  from absent ok C6_addOrIncrement[of widget "[]" 1 wished fresh False]
  have 1: "addToCart_items widget [] = [widget_item 1]"
    "persisted_cart (world_of (ProductDetails_addToCart (Some widget) fresh False)) = Some [widget_item 1]"
    "persisted_cart (world_of (Wishlist_addToCart wished fresh False)) = Some [gadget_item 1]"
    by (simp_all add: widget_def widget_item_def wished_def gadget_item_def addToCart_items_Nil)
  from present ok2 small
    C6_addOrIncrement[of widget "[gadget_item 2, widget_item 1]" 1 wished "holding [gadget_item 2, widget_item 1]" False]
  have 2: "length (addToCart_items widget [gadget_item 2, widget_item 1]) = 2"
    "plus_one 1 = 2"
    "persisted_cart (world_of (ProductDetails_addToCart (Some widget) (holding [gadget_item 2, widget_item 1]) False)) =
        Some (addToCart_items widget [gadget_item 2, widget_item 1])"
    by simp_all
  have 3: "addToCart_items widget [gadget_item 2, widget_item 1] = [gadget_item 2, widget_item 2]"
    by (simp add: addToCart_items_Cons widget_def widget_item_def gadget_item_def 2(2))
  from 1 2 3 show ?thesis by simp
qed

subsection \<open>Reachable states and quantities\<close>

lemma updateCart_cases:
  "(world_of (updateCart c w m) = w \<and> state_of (updateCart c w m) = m) \<or>
   (world_of (updateCart c w m) = w\<lparr>disk := (disk w)(''cart'' \<mapsto> JSON_stringify (cart_json c))\<rparr> \<and>
    state_of (updateCart c w m) = c)"
  by (simp add: updateCart_def setItem_def caught_def done_with_def)

lemma ProductDetails_addToCart_cases:
  "world_of (ProductDetails_addToCart (Some p) w b) = w \<or>
   (\<exists>cart. persisted_cart w = Some cart \<and>
      world_of (ProductDetails_addToCart (Some p) w b) =
        w\<lparr>disk := (disk w)(''cart'' \<mapsto> JSON_stringify (cart_json (addToCart_items p cart)))\<rparr>)"
  by (simp add: ProductDetails_addToCart_def getItem_def setItem_def caught_def done_with_def
      unmodelled_def persisted_cart_def split: sum.splits option.splits)

lemma Wishlist_addToCart_cases:
  "world_of (Wishlist_addToCart p w b) = w \<or>
   (\<exists>cart. persisted_cart w = Some cart \<and>
      world_of (Wishlist_addToCart p w b) =
        w\<lparr>disk := (disk w)(''cart'' \<mapsto> JSON_stringify (cart_json (addToCart_items p cart)))\<rparr>)"
  by (simp add: Wishlist_addToCart_def getItem_def setItem_def caught_def done_with_def
      unmodelled_def persisted_cart_def Wishlist_addToCart_items_eq split: sum.splits option.splits)

lemma loadCart_cases:
  "state_of (loadCart w j) = j \<or> disk w ''cart'' = Some (Doc (state_of (loadCart w j)))"
  by (simp add: loadCart_def getItem_def caught_def done_with_def JSON_parse_def
      split: sum.splits option.splits stored.splits)

lemma world_of_loadCart: "world_of (loadCart w j) = w"
  by (simp add: loadCart_def getItem_def caught_def done_with_def JSON_parse_def
      split: sum.splits option.splits stored.splits)

lemma persisted_cart_Doc: "disk w ''cart'' = Some (Doc v) \<Longrightarrow> persisted_cart w = as_cart v"
  by (simp add: persisted_cart_def parse_or_empty_def truthy_def JSON_parse_def)

lemma persisted_cart_adapter:
  "persisted_cart (w\<lparr>read_fails := a, write_fails := b\<rparr>) = persisted_cart w"
  by (simp add: persisted_cart_def)

lemma persisted_cart_other_key:
  "key \<noteq> ''cart'' \<Longrightarrow> persisted_cart (w\<lparr>disk := (disk w)(key := x)\<rparr>) = persisted_cart w"
  by (simp add: persisted_cart_def)

lemma reachable_invariant:
  assumes "reachable w m"
    and nil: "P []"
    and upd: "\<And>k inc c. P c \<Longrightarrow> P (newCart k inc c)"
    and rem: "\<And>k c. P c \<Longrightarrow> P (filter (\<lambda>item. ident item \<noteq> k) c)"
    and add_pd: "\<And>(p :: Product) c. P c \<Longrightarrow> P (addToCart_items p c)"
    and add_wl: "\<And>(q :: Wishlist_Product) c. P c \<Longrightarrow> P (addToCart_items q c)"
  shows "P m \<and> (\<exists>c. persisted_cart w = Some c \<and> P c)"
  using assms(1)
proof (induction rule: reachable.induct)
  case start
  show ?case by (simp add: nil persisted_cart_fresh)
next
  case (adapter w m r_fails w_fails)
  then show ?case by (simp add: persisted_cart_adapter)
next
  case (other_key w m key x)
  then show ?case by (simp add: persisted_cart_other_key)
next
  case (mount w m)
  then show ?case by (simp add: nil)
next
  case (load w m m')
  from loadCart_cases[of w "cart_json m"] show ?case
  proof
    assume "state_of (loadCart w (cart_json m)) = cart_json m"
    with load.hyps(2) have "m' = m" by (simp add: as_cart_cart_json)
    with load.IH show ?thesis by simp
  next
    assume "disk w ''cart'' = Some (Doc (state_of (loadCart w (cart_json m))))"
    then have "persisted_cart w = Some m'" using load.hyps(2) by (simp add: persisted_cart_Doc)
    with load.IH show ?thesis by auto
  qed
next
  case (change w m k inc)
  from updateCart_cases[of "newCart k inc m" w m] change.IH show ?case
    unfolding updateQuantity_def by (auto simp add: persisted_cart_written upd)
next
  case (remove w m k pressed)
  show ?case
  proof (cases pressed)
    case True
    from updateCart_cases[of "filter (\<lambda>item. ident item \<noteq> k) m" w m] remove.IH True show ?thesis
      unfolding removeItem_def by (auto simp add: persisted_cart_written rem)
  next
    case False
    with remove.IH show ?thesis by (simp add: removeItem_def done_with_def)
  qed
next
  case (add w m p b)
  from ProductDetails_addToCart_cases[of p w b] add.IH show ?case
    by (auto simp add: persisted_cart_written add_pd)
next
  case (add_from_wishlist w m q b)
  from Wishlist_addToCart_cases[of q w b] add_from_wishlist.IH show ?case
    by (auto simp add: persisted_cart_written add_wl)
qed




















subsection \<open>The other items\<close>










subsection \<open>A rejected write\<close>

lemma updateCart_write_fails:
  "write_fails w \<Longrightarrow> updateCart c w m = caught w m ''Error updating cart:'' StorageWriteError"
  by (simp add: updateCart_def setItem_def)

lemma ProductDetails_addToCart_write_fails:
  "write_fails w \<Longrightarrow>
     world_of (ProductDetails_addToCart product w b) = w \<and>
     state_of (ProductDetails_addToCart product w b) = b \<and>
     (\<forall>e. settled (ProductDetails_addToCart product w b) \<noteq> Rejected e)"
  by (simp add: ProductDetails_addToCart_def getItem_def setItem_def caught_def done_with_def
      unmodelled_def split: sum.splits option.splits)

lemma Wishlist_addToCart_write_fails:
  "write_fails w \<Longrightarrow>
     world_of (Wishlist_addToCart product w b) = w \<and>
     state_of (Wishlist_addToCart product w b) = b \<and>
     (\<forall>e. settled (Wishlist_addToCart product w b) \<noteq> Rejected e)"
  by (simp add: Wishlist_addToCart_def getItem_def setItem_def caught_def done_with_def
      unmodelled_def split: sum.splits option.splits)

lemma ProductDetails_toggleWishlist_write_fails:
  "write_fails w \<Longrightarrow>
     world_of (ProductDetails_toggleWishlist k w b) = w \<and>
     state_of (ProductDetails_toggleWishlist k w b) = b \<and>
     (\<forall>e. settled (ProductDetails_toggleWishlist k w b) \<noteq> Rejected e)"
  by (simp add: ProductDetails_toggleWishlist_def getItem_def setItem_def caught_def done_with_def
      unmodelled_def split: sum.splits option.splits)

lemma removeFromWishlist_write_fails:
  "write_fails w \<Longrightarrow>
     world_of (removeFromWishlist k w m) = w \<and>
     state_of (removeFromWishlist k w m) = m \<and>
     (\<forall>e. settled (removeFromWishlist k w m) \<noteq> Rejected e)"
  by (simp add: removeFromWishlist_def getItem_def setItem_def caught_def done_with_def
      unmodelled_def split: sum.splits option.splits)

lemma ProductDetails_addToCart_write_fails_logged:
  assumes "write_fails w" "\<not> read_fails w" "persisted_cart w = Some cart"
  shows "ProductDetails_addToCart (Some p) w b = caught w b ''Error adding to cart:'' StorageWriteError"
proof -
  from assms(3) obtain v where "parse_or_empty (disk w ''cart'') = Inr v" "as_cart v = Some cart"
    by (auto simp add: persisted_cart_def split: sum.splits)
  with assms(1,2) show ?thesis
    by (simp add: ProductDetails_addToCart_def getItem_def setItem_def)
qed

lemma Wishlist_addToCart_write_fails_logged:
  assumes "write_fails w" "\<not> read_fails w" "persisted_cart w = Some cart"
  shows "Wishlist_addToCart q w b = caught w b ''Error adding to cart:'' StorageWriteError"
proof -
  from assms(3) obtain v where "parse_or_empty (disk w ''cart'') = Inr v" "as_cart v = Some cart"
    by (auto simp add: persisted_cart_def split: sum.splits)
  with assms(1,2) show ?thesis
    by (simp add: Wishlist_addToCart_def getItem_def setItem_def)
qed

lemma ProductDetails_toggleWishlist_write_fails_logged:
  assumes "write_fails w" "\<not> read_fails w" "persisted_wishlist w = Some ids"
  shows "ProductDetails_toggleWishlist k w f = caught w f ''Error updating wishlist:'' StorageWriteError"
proof -
  from assms(3) obtain v where v: "parse_or_empty (disk w ''wishlist'') = Inr v" "as_ids v = Some ids"
    by (auto simp add: persisted_wishlist_def split: sum.splits)
  with assms(1,2) show ?thesis
    by (simp add: ProductDetails_toggleWishlist_def getItem_def setItem_def)
qed

lemma removeFromWishlist_write_fails_logged:
  assumes "write_fails w" "\<not> read_fails w" "disk w ''wishlist'' = Some (Doc (ids_json ids))"
  shows "removeFromWishlist k w wl = caught w wl ''Error removing from wishlist:'' StorageWriteError"
  using assms
  by (simp add: removeFromWishlist_def getItem_def setItem_def truthy_def JSON_parse_def as_ids_ids_json)

text \<open>
  Claim C1, as stated, fails. With an adapter that rejects the write, \<open>toggleWishlist\<close>
  of the shop screen leaves the state changed (it is set before the write), and neither
  it nor \<open>updateCart\<close> fails with the write error: the promise resolves.
\<close>

theorem C1_failed_write_counterexample:
  "state_of (Shop_toggleWishlist 5 (write_failing fresh) []) \<noteq> []
   \<and> settled (Shop_toggleWishlist 5 (write_failing fresh) []) \<noteq> Rejected StorageWriteError
   \<and> settled (updateCart [widget_item 1] (write_failing fresh) []) \<noteq> Rejected StorageWriteError"
  by (simp add: Shop_toggleWishlist_def updateCart_def setItem_def write_failing_def fresh_def caught_def)

text \<open>
  Claim C1, amended. When the adapter rejects the write, \<open>updateCart\<close> (and with it
  \<open>updateQuantity\<close> and \<open>removeItem\<close>) catches the error, writes it to the console and
  resolves, with the store and the state as they were, so that a load afterwards reads
  what a load before would have read. The two \<open>addToCart\<close>, \<open>toggleWishlist\<close> of the
  product screen and \<open>removeFromWishlist\<close> leave the store and their state as they were
  and never reject; when their read succeeds on a record of the expected type, they too
  catch the write error, write it to the console and resolve.
\<close>

theorem C1_failed_write_changes_nothing:
  "write_fails w \<longrightarrow>
     updateCart c w m = caught w m ''Error updating cart:'' StorageWriteError
   \<and> updateQuantity k inc w m = caught w m ''Error updating cart:'' StorageWriteError
   \<and> removeItem k True w m = caught w m ''Error updating cart:'' StorageWriteError
   \<and> loadCart (world_of (updateCart c w m)) j = loadCart w j
   \<and> world_of (ProductDetails_addToCart product w b) = w
   \<and> state_of (ProductDetails_addToCart product w b) = b
   \<and> (\<forall>e. settled (ProductDetails_addToCart product w b) \<noteq> Rejected e)
   \<and> world_of (Wishlist_addToCart wproduct w b) = w
   \<and> state_of (Wishlist_addToCart wproduct w b) = b
   \<and> (\<forall>e. settled (Wishlist_addToCart wproduct w b) \<noteq> Rejected e)
   \<and> world_of (ProductDetails_toggleWishlist k w f) = w
   \<and> state_of (ProductDetails_toggleWishlist k w f) = f
   \<and> (\<forall>e. settled (ProductDetails_toggleWishlist k w f) \<noteq> Rejected e)
   \<and> world_of (removeFromWishlist k w wl) = w
   \<and> state_of (removeFromWishlist k w wl) = wl
   \<and> (\<forall>e. settled (removeFromWishlist k w wl) \<noteq> Rejected e)
   \<and> (\<not> read_fails w \<and> persisted_cart w = Some cart \<longrightarrow>
        ProductDetails_addToCart (Some p) w b = caught w b ''Error adding to cart:'' StorageWriteError \<and>
        Wishlist_addToCart wproduct w b = caught w b ''Error adding to cart:'' StorageWriteError)
   \<and> (\<not> read_fails w \<and> persisted_wishlist w = Some ids \<longrightarrow>
        ProductDetails_toggleWishlist k w f = caught w f ''Error updating wishlist:'' StorageWriteError)
   \<and> (\<not> read_fails w \<and> disk w ''wishlist'' = Some (Doc (ids_json ids)) \<longrightarrow>
        removeFromWishlist k w wl = caught w wl ''Error removing from wishlist:'' StorageWriteError)"
  using updateCart_write_fails[of w] ProductDetails_addToCart_write_fails[of w product b]
    Wishlist_addToCart_write_fails[of w wproduct b] ProductDetails_toggleWishlist_write_fails[of w k f]
    removeFromWishlist_write_fails[of w k wl]
    ProductDetails_addToCart_write_fails_logged[of w cart p b]
    Wishlist_addToCart_write_fails_logged[of w cart wproduct b] ProductDetails_toggleWishlist_write_fails_logged[of w ids k f]
    removeFromWishlist_write_fails_logged[of w ids k wl]
  by (simp add: updateQuantity_def removeItem_def caught_def)

lemma persisted_stocked:
  "persisted_cart (write_failing stocked) = Some [widget_item 1]"
  "persisted_wishlist (write_failing stocked) = Some [5]"
  "disk (write_failing stocked) ''wishlist'' = Some (Doc (ids_json [5]))"
  by (simp_all add: write_failing_def stocked_def persisted_cart_def persisted_wishlist_def
      parse_or_empty_def truthy_def JSON_parse_def as_cart_cart_json as_ids_ids_json)

theorem C1_failed_write_changes_nothing_witness:
  "write_fails (write_failing stocked)
   \<and> persisted_cart (write_failing stocked) = Some [widget_item 1]
   \<and> persisted_wishlist (write_failing stocked) = Some [5]
   \<and> updateQuantity 3 True (write_failing stocked) [widget_item 1] =
        caught (write_failing stocked) [widget_item 1] ''Error updating cart:'' StorageWriteError
   \<and> ProductDetails_addToCart (Some widget) (write_failing stocked) False =
        caught (write_failing stocked) False ''Error adding to cart:'' StorageWriteError
   \<and> ProductDetails_toggleWishlist 5 (write_failing stocked) True =
        caught (write_failing stocked) True ''Error updating wishlist:'' StorageWriteError
   \<and> removeFromWishlist 5 (write_failing stocked) [] =
        caught (write_failing stocked) [] ''Error removing from wishlist:'' StorageWriteError
   \<and> persisted_cart (world_of (ProductDetails_addToCart (Some widget) (write_failing stocked) False)) =
        Some [widget_item 1]"
proof -
  have h: "write_fails (write_failing stocked)" "\<not> read_fails (write_failing stocked)"
    by (simp_all add: write_failing_def stocked_def)
  from h persisted_stocked
    C1_failed_write_changes_nothing[of "write_failing stocked" "newCart 3 True [widget_item 1]"
      "[widget_item 1]" 3 True "JArr []" "Some widget" False wished True "[]" "[widget_item 1]" widget "[5]"]
    C1_failed_write_changes_nothing[of "write_failing stocked" "newCart 3 True [widget_item 1]"
      "[widget_item 1]" 5 True "JArr []" "Some widget" False wished True "[]" "[widget_item 1]" widget "[5]"]
  show ?thesis by simp
qed

subsection \<open>Loading\<close>








subsection \<open>Hydrating the wishlist\<close>

lemma Promise_all_fulfils: "Promise_all (map Inr xs) = Inr xs"
  by (induction xs) simp_all

lemma Promise_all_fulfilled: "Promise_all rs = Inr xs \<Longrightarrow> rs = map Inr xs"
  by (induction rs arbitrary: xs) (auto split: sum.splits)

lemma Promise_all_rejects:
  assumes "\<exists>r\<in>set rs. \<exists>e. r = Inl e"
  shows "\<exists>e. Promise_all rs = Inl e"
proof (cases "Promise_all rs")
  case (Inl e)
  then show ?thesis by blast
next
  case (Inr xs)
  then have "rs = map Inr xs" by (rule Promise_all_fulfilled)
  with assms show ?thesis by auto
qed

lemma Wishlist_loadWishlist_all_found:
  assumes "\<not> read_fails w" "disk w ''wishlist'' = Some (Doc (ids_json ids))"
    "map axios_get ids = map Inr products"
  shows "Wishlist_loadWishlist axios_get w m = done_with w products"
  using assms
  by (simp add: Wishlist_loadWishlist_def getItem_def truthy_def JSON_parse_def as_ids_ids_json
      Promise_all_fulfils)

lemma Wishlist_loadWishlist_one_missing:
  assumes "\<not> read_fails w" "disk w ''wishlist'' = Some (Doc (ids_json ids))"
    "\<exists>i\<in>set ids. \<exists>e. axios_get i = Inl e"
  shows "\<exists>e. Wishlist_loadWishlist axios_get w m = caught w m ''Error loading wishlist:'' e"
proof -
  from assms(3) have "\<exists>r\<in>set (map axios_get ids). \<exists>e. r = Inl e" by auto
  from Promise_all_rejects[OF this] obtain e where "Promise_all (map axios_get ids) = Inl e" ..
  with assms(1,2) have "Wishlist_loadWishlist axios_get w m = caught w m ''Error loading wishlist:'' e"
    by (simp add: Wishlist_loadWishlist_def getItem_def truthy_def JSON_parse_def as_ids_ids_json)
  then show ?thesis ..
qed

text \<open>
  Claim C8, as stated, fails. With the ids 1, 2, 3 stored and the lookup of 2 failing, the
  products 1 and 3 are not shown: the state stays empty.
\<close>

theorem C8_hydration_counterexample:
  "catalog 1 = Inr \<lparr>ident = 1, title = ''Product'', price = 5, image_url = ''https://img''\<rparr>
   \<and> catalog 2 = Inl CatalogLookupError
   \<and> catalog 3 = Inr \<lparr>ident = 3, title = ''Product'', price = 5, image_url = ''https://img''\<rparr>
   \<and> state_of (Wishlist_loadWishlist catalog (wishing [1, 2, 3]) []) = []"
  by (simp add: catalog_def Wishlist_loadWishlist_def wishing_def getItem_def truthy_def JSON_parse_def
      ids_json_def caught_def)

text \<open>
  Claim C8, amended. \<open>loadWishlist\<close> of the wishlist screen joins the lookups with
  \<open>Promise.all\<close>. When every lookup succeeds the state becomes the products in the
  order of the stored ids. When one lookup fails the hydration is given up as a whole:
  the state stays as it was, the error is written to the console and the call resolves.
\<close>

theorem C8_hydration_all_or_nothing:
  "\<not> read_fails w \<and> disk w ''wishlist'' = Some (Doc (ids_json ids)) \<longrightarrow>
     (map axios_get ids = map Inr products \<longrightarrow>
        Wishlist_loadWishlist axios_get w wishlistItems = done_with w products)
   \<and> ((\<exists>i\<in>set ids. \<exists>e. axios_get i = Inl e) \<longrightarrow>
        (\<exists>e. Wishlist_loadWishlist axios_get w wishlistItems =
               caught w wishlistItems ''Error loading wishlist:'' e))"
  using Wishlist_loadWishlist_all_found[of w ids axios_get products wishlistItems]
    Wishlist_loadWishlist_one_missing[of w ids axios_get wishlistItems]
  by blast

theorem C8_hydration_all_or_nothing_witness:
  "map catalog [1, 3] = map Inr [\<lparr>ident = 1, title = ''Product'', price = 5, image_url = ''https://img''\<rparr>,
                                \<lparr>ident = 3, title = ''Product'', price = 5, image_url = ''https://img''\<rparr>]
   \<and> state_of (Wishlist_loadWishlist catalog (wishing [1, 3]) []) =
        [\<lparr>ident = 1, title = ''Product'', price = 5, image_url = ''https://img''\<rparr>,
         \<lparr>ident = 3, title = ''Product'', price = 5, image_url = ''https://img''\<rparr>]
   \<and> (\<exists>e. Wishlist_loadWishlist catalog (wishing [1, 2, 3]) [] =
            caught (wishing [1, 2, 3]) [] ''Error loading wishlist:'' e)"
proof -
  have h: "\<not> read_fails (wishing [1, 3]) \<and> disk (wishing [1, 3]) ''wishlist'' = Some (Doc (ids_json [1, 3]))"
    "\<not> read_fails (wishing [1, 2, 3]) \<and> disk (wishing [1, 2, 3]) ''wishlist'' = Some (Doc (ids_json [1, 2, 3]))"
    by (simp_all add: wishing_def)
  have f: "map catalog [1, 3] = map Inr [\<lparr>ident = 1, title = ''Product'', price = 5, image_url = ''https://img''\<rparr>,
                                \<lparr>ident = 3, title = ''Product'', price = 5, image_url = ''https://img''\<rparr>]"
    by (simp add: catalog_def)
  have g: "\<exists>i\<in>set [1, 2, 3]. \<exists>e. catalog i = Inl e"
    by (simp add: catalog_def)
  from h(1) f C8_hydration_all_or_nothing[of "wishing [1, 3]" "[1, 3]" catalog
      "[\<lparr>ident = 1, title = ''Product'', price = 5, image_url = ''https://img''\<rparr>,
        \<lparr>ident = 3, title = ''Product'', price = 5, image_url = ''https://img''\<rparr>]" "[]"]
  have a: "state_of (Wishlist_loadWishlist catalog (wishing [1, 3]) []) =
        [\<lparr>ident = 1, title = ''Product'', price = 5, image_url = ''https://img''\<rparr>,
         \<lparr>ident = 3, title = ''Product'', price = 5, image_url = ''https://img''\<rparr>]"
    by (simp add: done_with_def)
  from h(2) g C8_hydration_all_or_nothing[of "wishing [1, 2, 3]" "[1, 2, 3]" catalog "[]" "[]"]
  have b: "\<exists>e. Wishlist_loadWishlist catalog (wishing [1, 2, 3]) [] =
            caught (wishing [1, 2, 3]) [] ''Error loading wishlist:'' e"
    by blast
  from f a b show ?thesis by blast
qed

subsection \<open>Two calls in flight\<close>

lemma resume_read:
  assumes "\<not> read_fails w" "persisted_cart w = Some cart"
  shows "resume p AwaitGetItem w = (AwaitSetItem (JSON_stringify (cart_json (addToCart_items p cart))), w)"
proof -
  from assms(2) obtain v where "parse_or_empty (disk w ''cart'') = Inr v" "as_cart v = Some cart"
    by (auto simp add: persisted_cart_def split: sum.splits)
  with assms(1) show ?thesis by (simp add: getItem_def)
qed

lemma resume_write:
  "\<not> write_fails w \<Longrightarrow>
     resume p (AwaitSetItem t) w = (Returned Resolved, w\<lparr>disk := (disk w)(''cart'' \<mapsto> t)\<rparr>)"
  by (simp add: setItem_def)

lemma run_in_sequence:
  assumes "\<not> read_fails w" "\<not> write_fails w" "persisted_cart w = Some cart"
  shows "persisted_cart (snd (snd (run p [First, First, Second, Second] (AwaitGetItem, AwaitGetItem, w)))) =
           Some (addToCart_items p (addToCart_items p cart))"
proof -
  let ?w1 = "w\<lparr>disk := (disk w)(''cart'' \<mapsto> JSON_stringify (cart_json (addToCart_items p cart)))\<rparr>"
  have w1: "\<not> read_fails ?w1" "\<not> write_fails ?w1" "persisted_cart ?w1 = Some (addToCart_items p cart)"
    using assms by (simp_all add: persisted_cart_written)
  show ?thesis
    by (simp add: resume_read[OF assms(1,3)] resume_write[OF assms(2)]
        resume_read[OF w1(1,3)] resume_write[OF w1(2)] persisted_cart_written del: resume.simps)
qed

lemma run_in_flight:
  assumes "\<not> read_fails w" "\<not> write_fails w" "persisted_cart w = Some cart"
  shows "persisted_cart (snd (snd (run p [First, Second, First, Second] (AwaitGetItem, AwaitGetItem, w)))) =
           Some (addToCart_items p cart)"
    and "persisted_cart (snd (snd (run p [First, Second, Second, First] (AwaitGetItem, AwaitGetItem, w)))) =
           Some (addToCart_items p cart)"
proof -
  let ?w1 = "w\<lparr>disk := (disk w)(''cart'' \<mapsto> JSON_stringify (cart_json (addToCart_items p cart)))\<rparr>"
  have w1: "\<not> write_fails ?w1" using assms by simp
  show "persisted_cart (snd (snd (run p [First, Second, First, Second] (AwaitGetItem, AwaitGetItem, w)))) =
           Some (addToCart_items p cart)"
    by (simp add: resume_read[OF assms(1,3)] resume_write[OF assms(2)] resume_write[OF w1]
        persisted_cart_written del: resume.simps)
  show "persisted_cart (snd (snd (run p [First, Second, Second, First] (AwaitGetItem, AwaitGetItem, w)))) =
           Some (addToCart_items p cart)"
    by (simp add: resume_read[OF assms(1,3)] resume_write[OF assms(2)] resume_write[OF w1]
        persisted_cart_written del: resume.simps)
qed

lemma run_one_call:
  "snd (snd (run p [First, First] (AwaitGetItem, t, w))) = world_of (ProductDetails_addToCart (Some p) w b)"
  by (simp add: ProductDetails_addToCart_def caught_def done_with_def unmodelled_def
      split: sum.splits option.splits)

lemma addToCart_items_twice:
  "ident p \<notin> ident ` set cart \<Longrightarrow>
     addToCart_items p (addToCart_items p cart) =
       cart @ [\<lparr>ident = ident p, title = title p, price = price p, image_url = image_url p, quantity = 2\<rparr>]"
  by (induction cart) (auto simp add: addToCart_items_Nil addToCart_items_Cons plus_one_exact)

text \<open>
  Claim C2, as stated, fails. Two calls for the same product issued without awaiting both
  have their read answered before either write; on an empty store the cart ends with
  quantity 1.
\<close>

theorem C2_two_calls_counterexample:
  "persisted_cart (snd (snd (run widget [First, Second, First, Second] (AwaitGetItem, AwaitGetItem, fresh)))) =
     Some [widget_item 1]"
  by (simp add: fresh_def getItem_def setItem_def parse_or_empty_def addToCart_items_Nil
      JSON_stringify_def persisted_cart_def truthy_def JSON_parse_def as_cart_cart_json
      widget_def widget_item_def)

text \<open>
  Claim C2, amended. The code has no queue of mutations. Two calls of \<open>addToCart\<close> for
  a product of which the second starts when the first has returned add the product
  twice: quantity 2 for a product that was not in the cart. When both reads are answered
  before the writes, in either order of the writes, the persisted cart is that of one
  call: quantity 1. A task resumed twice is one call of \<open>addToCart\<close>.
\<close>

theorem C2_two_calls_in_sequence_or_in_flight:
  "(\<not> read_fails w \<and> \<not> write_fails w \<and> persisted_cart w = Some cart \<longrightarrow>
      persisted_cart (snd (snd (run p [First, First, Second, Second] (AwaitGetItem, AwaitGetItem, w)))) =
        Some (addToCart_items p (addToCart_items p cart))
    \<and> persisted_cart (snd (snd (run p [First, Second, First, Second] (AwaitGetItem, AwaitGetItem, w)))) =
        Some (addToCart_items p cart)
    \<and> persisted_cart (snd (snd (run p [First, Second, Second, First] (AwaitGetItem, AwaitGetItem, w)))) =
        Some (addToCart_items p cart))
   \<and> snd (snd (run p [First, First] (AwaitGetItem, t, w))) =
        world_of (ProductDetails_addToCart (Some p) w b)
   \<and> (ident p \<notin> ident ` set cart \<longrightarrow>
        addToCart_items p (addToCart_items p cart) =
          cart @ [\<lparr>ident = ident p, title = title p, price = price p, image_url = image_url p,
                   quantity = 2\<rparr>]
      \<and> addToCart_items p cart =
          cart @ [\<lparr>ident = ident p, title = title p, price = price p, image_url = image_url p,
                   quantity = 1\<rparr>])"
  using run_in_sequence[of w cart p] run_in_flight[of w cart p] run_one_call[of p t w b]
    addToCart_items_twice[of p cart] addToCart_items_absent[of p cart]
  by blast

theorem C2_two_calls_in_sequence_or_in_flight_witness:
  "persisted_cart fresh = Some []
   \<and> persisted_cart (snd (snd (run widget [First, First, Second, Second] (AwaitGetItem, AwaitGetItem, fresh)))) =
       Some [widget_item 2]
   \<and> persisted_cart (snd (snd (run widget [First, Second, Second, First] (AwaitGetItem, AwaitGetItem, fresh)))) =
       Some [widget_item 1]"
proof -
  have h: "\<not> read_fails fresh \<and> \<not> write_fails fresh \<and> persisted_cart fresh = Some []"
    by (simp add: persisted_cart_fresh) (simp add: fresh_def)
  have a: "ident widget \<notin> ident ` set []" by simp
  from h a C2_two_calls_in_sequence_or_in_flight[of fresh "[]" widget AwaitGetItem False]
  have "persisted_cart (snd (snd (run widget [First, First, Second, Second] (AwaitGetItem, AwaitGetItem, fresh)))) =
       Some (addToCart_items widget (addToCart_items widget []))"
    and "persisted_cart (snd (snd (run widget [First, Second, Second, First] (AwaitGetItem, AwaitGetItem, fresh)))) =
       Some (addToCart_items widget [])"
    by blast+
  moreover have "addToCart_items widget [] = [widget_item 1]"
    by (simp add: addToCart_items_Nil widget_def widget_item_def)
  moreover have "addToCart_items widget [widget_item 1] = [widget_item 2]"
    by (simp add: addToCart_items_Cons widget_def widget_item_def plus_one_exact)
  ultimately show ?thesis using h by simp
qed

subsection \<open>The flag of the product screen\<close>

text \<open>
  Claim C3 at the input where the code breaks it. \<open>toggleWishlist\<close> of the product
  screen chooses its branch by the flag \<open>isInWishlist\<close>, not by the list it has just
  read. The flag is \<open>False\<close> after \<open>checkWishlist\<close> found nothing stored, and stays
  \<open>False\<close> when the shop screen then stores the id; it is also \<open>False\<close> after a
  \<open>checkWishlist\<close> whose read was rejected. The toggle then appends the id a second
  time.
\<close>

theorem C3_wishlist_duplicate:
  "state_of (checkWishlist 5 fresh False) = False
   \<and> persisted_wishlist (world_of (Shop_toggleWishlist 5 fresh [])) = Some [5]
   \<and> persisted_wishlist
        (world_of (ProductDetails_toggleWishlist 5 (world_of (Shop_toggleWishlist 5 fresh []))
                     (state_of (checkWishlist 5 fresh False)))) = Some [5, 5]
   \<and> state_of (checkWishlist 5 ((wishing [5])\<lparr>read_fails := True\<rparr>) False) = False
   \<and> persisted_wishlist (world_of (ProductDetails_toggleWishlist 5 (wishing [5]) False)) = Some [5, 5]"
  by (simp add: checkWishlist_def Shop_toggleWishlist_def ProductDetails_toggleWishlist_def
      fresh_def wishing_def getItem_def setItem_def parse_or_empty_def truthy_def JSON_parse_def
      JSON_stringify_def persisted_wishlist_def ids_json_def done_with_def caught_def)

text \<open>
  Claim C7 at the input where the code breaks it. With 5 stored and the flag \<open>False\<close>,
  \<open>toggleWishlist\<close> of the product screen does not remove 5 but appends it, and the
  second toggle removes both: two toggles turn the set \<open>{5}\<close> into the empty set. With
  nothing stored and the flag \<open>True\<close>, the toggle does not insert 5.
\<close>

theorem C7_toggle_twice_by_stale_flag:
  "persisted_wishlist (wishing [5]) = Some [5]
   \<and> persisted_wishlist (world_of (ProductDetails_toggleWishlist 5 (wishing [5]) False)) = Some [5, 5]
   \<and> state_of (ProductDetails_toggleWishlist 5 (wishing [5]) False) = True
   \<and> persisted_wishlist
        (world_of (ProductDetails_toggleWishlist 5
                     (world_of (ProductDetails_toggleWishlist 5 (wishing [5]) False)) True)) = Some []
   \<and> persisted_wishlist (world_of (ProductDetails_toggleWishlist 5 fresh True)) = Some []"
  by (simp add: ProductDetails_toggleWishlist_def
      fresh_def wishing_def getItem_def setItem_def parse_or_empty_def truthy_def JSON_parse_def
      JSON_stringify_def persisted_wishlist_def ids_json_def done_with_def caught_def)

subsection \<open>The total\<close>

lemma unit_roundoff_range: "0 < unit_roundoff" "unit_roundoff < 1"
  by (simp_all add: unit_roundoff_def)

lemma double_round_interval:
  assumes "normal x"
  shows "(1 - unit_roundoff) * x \<le> double_round x" "double_round x \<le> (1 + unit_roundoff) * x"
    "normal (double_round x)"
proof -
  show "(1 - unit_roundoff) * x \<le> double_round x"
  proof (cases "x = 0")
    case True
    then show ?thesis by (simp add: double_round_0)
  next
    case False
    with assms have "1 / 2 ^ 1022 \<le> x" by (simp add: normal_def)
    from double_round_error[OF this] have "x - x / 2 ^ 53 \<le> double_round x" by linarith
    then show ?thesis by (simp add: unit_roundoff_def left_diff_distrib)
  qed
  show "double_round x \<le> (1 + unit_roundoff) * x"
  proof (cases "x = 0")
    case True
    then show ?thesis by (simp add: double_round_0)
  next
    case False
    with assms have "1 / 2 ^ 1022 \<le> x" by (simp add: normal_def)
    from double_round_error[OF this] have "double_round x \<le> x + x / 2 ^ 53" by linarith
    then show ?thesis by (simp add: unit_roundoff_def distrib_right)
  qed
  show "normal (double_round x)"
  proof (cases "x = 0")
    case True
    then show ?thesis by (simp add: double_round_0 normal_def)
  next
    case False
    with assms have x: "1 / 2 ^ 1022 \<le> x" by (simp add: normal_def)
    then have pos: "0 < x" by (rule less_le_trans[rotated]) simp
    from x have "(2::rat) powi (- 1022) \<le> x" by (simp add: power_int_minus_divide)
    from double_round_ge_powi[OF pos this] have "(2::rat) powi (- 1022) \<le> double_round x" by simp
    then show ?thesis by (simp add: normal_def power_int_minus_divide)
  qed
qed

lemma normal_add: "normal x \<Longrightarrow> normal y \<Longrightarrow> normal (x + y)"
  by (auto simp add: normal_def intro: add_increasing2 add_increasing)

lemma normal_mult_of_int:
  assumes "normal p" "0 \<le> q"
  shows "normal (p * of_int q)"
proof (cases "p = 0 \<or> q = 0")
  case True
  then show ?thesis by (auto simp add: normal_def)
next
  case False
  with assms have p: "1 / 2 ^ 1022 \<le> p" and q: "1 \<le> q" by (auto simp add: normal_def)
  from q have "(1::rat) \<le> of_int q" by simp
  with p have "1 / 2 ^ 1022 * 1 \<le> p * of_int q" by (intro mult_mono) simp_all
  then show ?thesis by (simp add: normal_def)
qed

lemma normal_nonneg: "normal x \<Longrightarrow> 0 \<le> x"
  by (auto simp add: normal_def intro: order_trans[rotated])


lemma total_plus_bounds:
  assumes t: "normal t" and k: "1 \<le> k" and S: "0 \<le> S"
    and lo: "(1 - unit_roundoff) ^ k * S \<le> t" and hi: "t \<le> (1 + unit_roundoff) ^ k * S"
    and p: "normal (price x)" and q: "0 \<le> quantity x"
    and fin: "(1 + unit_roundoff) ^ Suc k * (S + price x * of_int (quantity x)) < 2 ^ 1024"
  shows "\<exists>t'. total_plus (Some t) x = Some t' \<and> normal t' \<and>
           (1 - unit_roundoff) ^ Suc k * (S + price x * of_int (quantity x)) \<le> t' \<and>
           t' \<le> (1 + unit_roundoff) ^ Suc k * (S + price x * of_int (quantity x))"
proof -
  define a where "a = 1 - unit_roundoff"
  define b where "b = 1 + unit_roundoff"
  define pq where "pq = price x * of_int (quantity x)"
  define m where "m = double_round pq"
  define t' where "t' = double_round (t + m)"
  have a: "0 \<le> a" "a \<le> 1" and b: "1 \<le> b" "0 \<le> b"
    using unit_roundoff_range by (simp_all add: a_def b_def)
  have npq: "normal pq" unfolding pq_def by (rule normal_mult_of_int[OF p q])
  then have pq0: "0 \<le> pq" by (rule normal_nonneg)
  have m: "a * pq \<le> m" "m \<le> b * pq" "normal m"
    using double_round_interval[OF npq] by (simp_all add: m_def a_def b_def)
  have m0: "0 \<le> m" using m(3) by (rule normal_nonneg)
  have ak: "a ^ k \<le> a" using power_decreasing[of 1 k a] a k by simp
  have bk: "b \<le> b ^ k" using power_increasing[of 1 k b] b k by simp
  have ns: "normal (t + m)" by (rule normal_add[OF t m(3)])
  have s_lo: "a ^ k * (S + pq) \<le> t + m"
  proof -
    have "a ^ k * pq \<le> a * pq" using ak pq0 by (rule mult_right_mono)
    then have "a ^ k * (S + pq) \<le> a ^ k * S + a * pq" by (simp add: distrib_left)
    also have "\<dots> \<le> t + m" using lo m(1) by (simp add: a_def add_mono)
    finally show ?thesis .
  qed
  have s_hi: "t + m \<le> b ^ k * (S + pq)"
  proof -
    have "b * pq \<le> b ^ k * pq" using bk pq0 by (rule mult_right_mono)
    then have "b ^ k * S + b * pq \<le> b ^ k * (S + pq)" by (simp add: distrib_left)
    moreover have "t + m \<le> b ^ k * S + b * pq" using hi m(2) by (simp add: b_def add_mono)
    ultimately show ?thesis by simp
  qed
  have t': "a * (t + m) \<le> t'" "t' \<le> b * (t + m)" "normal t'"
    using double_round_interval[OF ns] by (simp_all add: t'_def a_def b_def)
  have t_lo: "a ^ Suc k * (S + pq) \<le> t'"
  proof -
    have "a * (a ^ k * (S + pq)) \<le> a * (t + m)" using s_lo a(1) by (rule mult_left_mono)
    with t'(1) show ?thesis by (simp add: mult.assoc)
  qed
  have t_hi: "t' \<le> b ^ Suc k * (S + pq)"
  proof -
    have "b * (t + m) \<le> b * (b ^ k * (S + pq))" using s_hi b(2) by (rule mult_left_mono)
    with t'(2) show ?thesis by (simp add: mult.assoc)
  qed
  have fin': "b ^ Suc k * (S + pq) < 2 ^ 1024" using fin by (simp add: b_def pq_def)
  have m_fin: "\<bar>m\<bar> < 2 ^ 1024"
  proof -
    have "b * pq \<le> b ^ Suc k * pq"
      using power_increasing[of 1 "Suc k" b] b pq0 by (intro mult_right_mono) simp_all
    also have "\<dots> \<le> b ^ Suc k * (S + pq)" using S b by (intro mult_left_mono) simp_all
    finally have "m < 2 ^ 1024" using m(2) fin' by simp
    with m0 show ?thesis by simp
  qed
  have t'0: "0 \<le> t'" using t'(3) by (rule normal_nonneg)
  have t_fin: "\<bar>t'\<bar> < 2 ^ 1024" using t_hi fin' t'0 by simp
  have "total_plus (Some t) x = Some t'"
    using m_fin t_fin
    by (simp add: total_plus_def double_mul_def double_add_def Let_def pq_def[symmetric]
        m_def[symmetric] t'_def[symmetric])
  with t'(3) t_lo t_hi show ?thesis by (simp add: a_def b_def pq_def)
qed

lemma foldl_total_plus_bounds:
  assumes "normal t" "1 \<le> k" "0 \<le> S"
    "(1 - unit_roundoff) ^ k * S \<le> t" "t \<le> (1 + unit_roundoff) ^ k * S"
    "\<forall>i\<in>set xs. normal (price i) \<and> 0 \<le> quantity i"
    "(1 + unit_roundoff) ^ (k + length xs) * (S + true_total xs) < 2 ^ 1024"
  shows "\<exists>t'. foldl total_plus (Some t) xs = Some t' \<and> normal t' \<and>
           (1 - unit_roundoff) ^ (k + length xs) * (S + true_total xs) \<le> t' \<and>
           t' \<le> (1 + unit_roundoff) ^ (k + length xs) * (S + true_total xs)"
  using assms
proof (induction xs arbitrary: t k S)
  case Nil
  then show ?case by (simp add: true_total_def)
next
  case (Cons x xs)
  define pq where "pq = price x * of_int (quantity x)"
  define b where "b = 1 + unit_roundoff"
  have b: "1 \<le> b" using unit_roundoff_range by (simp add: b_def)
  have x: "normal (price x)" "0 \<le> quantity x" using Cons.prems(6) by simp_all
  have rest: "\<forall>i\<in>set xs. normal (price i) \<and> 0 \<le> quantity i" using Cons.prems(6) by simp
  have tt: "true_total (x # xs) = pq + true_total xs" by (simp add: true_total_def pq_def)
  have tt0: "0 \<le> true_total xs"
    unfolding true_total_def using rest
    by (intro sum_list_nonneg) (auto intro!: mult_nonneg_nonneg dest: normal_nonneg)
  have pq0: "0 \<le> pq" unfolding pq_def using x normal_nonneg[of "price x"] by simp
  have big: "b ^ (k + length (x # xs)) * (S + true_total (x # xs)) < 2 ^ 1024"
    using Cons.prems(7) by (simp add: b_def)
  have "b ^ Suc k * (S + pq) \<le> b ^ (k + length (x # xs)) * (S + pq)"
    using b Cons.prems(3) pq0 by (intro mult_right_mono power_increasing) simp_all
  also have "\<dots> \<le> b ^ (k + length (x # xs)) * (S + true_total (x # xs))"
    using b tt0 by (intro mult_left_mono) (simp_all add: tt)
  finally have fin1: "(1 + unit_roundoff) ^ Suc k * (S + price x * of_int (quantity x)) < 2 ^ 1024"
    using big by (simp add: b_def pq_def)
  from total_plus_bounds[OF Cons.prems(1,2,3,4,5) x fin1]
  obtain t1 where t1: "total_plus (Some t) x = Some t1" "normal t1"
    "(1 - unit_roundoff) ^ Suc k * (S + pq) \<le> t1" "t1 \<le> (1 + unit_roundoff) ^ Suc k * (S + pq)"
    by (auto simp add: pq_def)
  have fin2: "(1 + unit_roundoff) ^ (Suc k + length xs) * ((S + pq) + true_total xs) < 2 ^ 1024"
    using big by (simp add: b_def tt add.assoc)
  have S1: "0 \<le> S + pq" using Cons.prems(3) pq0 by simp
  from Cons.IH[OF t1(2) _ S1 t1(3,4) rest fin2]
  obtain t' where "foldl total_plus (Some t1) xs = Some t'" "normal t'"
    "(1 - unit_roundoff) ^ (Suc k + length xs) * ((S + pq) + true_total xs) \<le> t'"
    "t' \<le> (1 + unit_roundoff) ^ (Suc k + length xs) * ((S + pq) + true_total xs)"
    by auto
  then show ?case using t1(1) by (simp add: tt add.assoc)
qed


lemma power_one_plus_le:
  fixes u :: rat
  assumes "0 \<le> u" "2 * of_nat k * u \<le> 1"
  shows "(1 + u) ^ k \<le> 1 + 2 * of_nat k * u"
  using assms(2)
proof (induction k)
  case 0
  then show ?case by simp
next
  case (Suc k)
  have ku: "2 * of_nat k * u \<le> 1"
    using Suc.prems assms(1) by (simp add: algebra_simps)
  have "(1 + u) ^ Suc k = (1 + u) ^ k * (1 + u)" by simp
  also have "\<dots> \<le> (1 + 2 * of_nat k * u) * (1 + u)"
    using Suc.IH[OF ku] assms(1) by (intro mult_right_mono) simp_all
  also have "\<dots> = 1 + 2 * of_nat k * u + u + (2 * of_nat k * u) * u" by (simp add: algebra_simps)
  also have "\<dots> \<le> 1 + 2 * of_nat k * u + u + 1 * u"
    using ku assms(1) by (intro add_left_mono mult_right_mono) simp_all
  also have "\<dots> = 1 + 2 * of_nat (Suc k) * u" by (simp add: algebra_simps)
  finally show ?case .
qed

lemma power_one_minus_ge:
  fixes u :: rat
  assumes "0 \<le> u" "u \<le> 1"
  shows "1 - of_nat k * u \<le> (1 - u) ^ k"
  using Bernoulli_inequality[of "- u" k] assms by simp


lemma getTotalPrice_empty: "getTotalPrice [] = Some 0"
  by (simp add: getTotalPrice_def)

lemma getTotalPrice_within:
  assumes items: "\<forall>i\<in>set cartItems. normal (price i) \<and> 0 \<le> quantity i"
    and len: "length cartItems < 2 ^ 32"
    and bound: "(of_nat (length cartItems) + 1) * true_total cartItems \<le> 2 ^ 44"
  shows "\<exists>t. getTotalPrice cartItems = Some t \<and>
           \<bar>t - true_total cartItems\<bar> \<le> (of_nat (length cartItems) + 1) * true_total cartItems / 2 ^ 52"
proof -
  define n where "n = Suc (length cartItems)"
  define T where "T = true_total cartItems"
  define u where "u = unit_roundoff"
  have u: "0 \<le> u" "u \<le> 1" using unit_roundoff_range by (simp_all add: u_def)
  have T0: "0 \<le> T"
    unfolding T_def true_total_def using items
    by (intro sum_list_nonneg) (auto intro!: mult_nonneg_nonneg dest: normal_nonneg)
  have "n \<le> 2 ^ 32" using len by (simp add: n_def)
  then have "(of_nat n :: rat) \<le> of_nat (2 ^ 32)" by (simp only: of_nat_le_iff)
  then have n32: "(of_nat n :: rat) \<le> 2 ^ 32" by simp
  have nu: "2 * of_nat n * u \<le> 1"
  proof -
    have "2 * of_nat n * u \<le> 2 * 2 ^ 32 * u" using n32 u(1) by (intro mult_right_mono mult_left_mono) simp_all
    also have "\<dots> \<le> 1" by (simp add: u_def unit_roundoff_def)
    finally show ?thesis .
  qed
  have up: "(1 + u) ^ n \<le> 1 + 2 * of_nat n * u" by (rule power_one_plus_le[OF u(1) nu])
  have down: "1 - of_nat n * u \<le> (1 - u) ^ n" by (rule power_one_minus_ge[OF u])
  have nT: "of_nat n * T \<le> 2 ^ 44" using bound by (simp add: n_def T_def add.commute)
  have "(1 + u) ^ n * T \<le> (1 + 2 * of_nat n * u) * T" using up T0 by (rule mult_right_mono)
  also have "\<dots> \<le> (1 + 1) * T" using nu T0 by (intro mult_right_mono add_left_mono) simp_all
  also have "\<dots> \<le> 2 * (of_nat n * T)" using T0 by (simp add: n_def algebra_simps)
  also have "\<dots> < 2 ^ 1024"
  proof -
    have "2 * (of_nat n * T) \<le> 2 * 2 ^ 44" using nT by (intro mult_left_mono) simp_all
    also have "\<dots> < (2::rat) ^ 1024" by simp
    finally show ?thesis .
  qed
  finally have fin: "(1 + unit_roundoff) ^ (1 + length cartItems) * (0 + true_total cartItems) < 2 ^ 1024"
    by (simp add: n_def T_def u_def)
  have n0: "normal 0" by (simp add: normal_def)
  from foldl_total_plus_bounds[OF n0 _ _ _ _ items fin]
  obtain t where t: "getTotalPrice cartItems = Some t" "(1 - u) ^ n * T \<le> t" "t \<le> (1 + u) ^ n * T"
    by (auto simp add: getTotalPrice_def n_def T_def u_def)
  have hi: "t - T \<le> 2 * of_nat n * u * T"
  proof -
    have "t \<le> (1 + 2 * of_nat n * u) * T" using t(3) up T0 by (meson mult_right_mono order_trans)
    then show ?thesis by (simp add: algebra_simps)
  qed
  have lo: "- (2 * of_nat n * u * T) \<le> t - T"
  proof -
    have "(1 - of_nat n * u) * T \<le> t" using t(2) down T0 by (meson mult_right_mono order_trans)
    then have "- (of_nat n * u * T) \<le> t - T" by (simp add: algebra_simps)
    moreover have "0 \<le> of_nat n * u * T" using u(1) T0 by simp
    ultimately show ?thesis by simp
  qed
  have "\<bar>t - T\<bar> \<le> 2 * of_nat n * u * T" using hi lo by (simp add: abs_le_iff)
  also have "\<dots> = of_nat n * T / 2 ^ 52" by (simp add: u_def unit_roundoff_def)
  finally show ?thesis using t(1) by (auto simp add: n_def T_def add.commute)
qed


lemma total_plus_exact:
  assumes "0 \<le> a" "0 \<le> n" "0 \<le> q" "a + n * q \<le> 2 ^ 53"
  shows "total_plus (Some (of_int a)) \<lparr>ident = i, title = s, price = of_int n, image_url = im, quantity = q\<rparr> =
           Some (of_int (a + n * q))"
proof -
  have nq: "0 \<le> n * q" using assms(2,3) by simp
  have 1: "\<bar>n * q\<bar> \<le> 2 ^ 53" using assms nq by simp
  have 2: "\<bar>a + n * q\<bar> \<le> 2 ^ 53" using assms nq by simp
  have m: "double_round (of_int n * of_int q) = of_int (n * q)"
    using double_round_of_int[OF 1] by simp
  have t: "double_round (of_int a + of_int n * of_int q) = of_int (a + n * q)"
    using double_round_of_int[OF 2] by simp
  have f1: "\<bar>of_int (n * q) :: rat\<bar> < 2 ^ 1024"
  proof -
    have "(of_int \<bar>n * q\<bar> :: rat) \<le> of_int (2 ^ 53)" using 1 by (simp only: of_int_le_iff)
    then show ?thesis by simp
  qed
  have f2: "\<bar>of_int (a + n * q) :: rat\<bar> < 2 ^ 1024"
  proof -
    have "(of_int \<bar>a + n * q\<bar> :: rat) \<le> of_int (2 ^ 53)" using 2 by (simp only: of_int_le_iff)
    then show ?thesis by simp
  qed
  show ?thesis
    using f1 f2 by (simp add: total_plus_def double_mul_def double_add_def Let_def m t)
qed

lemma foldl_total_plus_exact:
  assumes "0 \<le> a" "\<forall>i\<in>set xs. of_int \<lfloor>price i\<rfloor> = price i \<and> 0 \<le> price i \<and> 0 \<le> quantity i"
    "of_int a + true_total xs \<le> 2 ^ 53"
  shows "foldl total_plus (Some (of_int a)) xs = Some (of_int a + true_total xs)"
  using assms
proof (induction xs arbitrary: a)
  case Nil
  then show ?case by (simp add: true_total_def)
next
  case (Cons x xs)
  define n where "n = \<lfloor>price x\<rfloor>"
  define q where "q = quantity x"
  have px: "price x = of_int n" and n0: "0 \<le> n" and q0: "0 \<le> q"
    using Cons.prems(2) by (auto simp add: n_def q_def)
  have x: "x = \<lparr>ident = ident x, title = title x, price = of_int n, image_url = image_url x, quantity = q\<rparr>"
    by (simp add: px[symmetric] q_def)
  have rest: "\<forall>i\<in>set xs. of_int \<lfloor>price i\<rfloor> = price i \<and> 0 \<le> price i \<and> 0 \<le> quantity i"
    using Cons.prems(2) by simp
  have tt0: "0 \<le> true_total xs"
    unfolding true_total_def using rest by (intro sum_list_nonneg) auto
  have tt: "true_total (x # xs) = of_int (n * q) + true_total xs"
    by (simp add: true_total_def px q_def)
  have "(of_int (a + n * q) :: rat) \<le> of_int a + true_total (x # xs)" using tt0 by (simp add: tt)
  also have "\<dots> \<le> 2 ^ 53" by (rule Cons.prems(3))
  finally have "(of_int (a + n * q) :: rat) \<le> of_int (2 ^ 53)" by simp
  then have le: "a + n * q \<le> 2 ^ 53" by (simp only: of_int_le_iff)
  have step: "total_plus (Some (of_int a)) x = Some (of_int (a + n * q))"
    by (subst x, rule total_plus_exact[OF Cons.prems(1) n0 q0 le])
  have a': "0 \<le> a + n * q" using Cons.prems(1) n0 q0 by simp
  have b': "of_int (a + n * q) + true_total xs \<le> 2 ^ 53"
    using Cons.prems(3) by (simp add: tt add.assoc)
  show ?case
    using Cons.IH[OF a' rest b'] by (simp add: step tt add.assoc)
qed

lemma getTotalPrice_exact_integers:
  assumes "\<forall>i\<in>set cartItems. of_int \<lfloor>price i\<rfloor> = price i \<and> 0 \<le> price i \<and> 0 \<le> quantity i"
    "true_total cartItems \<le> 2 ^ 53"
  shows "getTotalPrice cartItems = Some (true_total cartItems)"
  using foldl_total_plus_exact[of 0 cartItems] assms by (simp add: getTotalPrice_def)

lemma getTotalPrice_half_cent:
  assumes "\<forall>i\<in>set cartItems. normal (price i) \<and> 0 \<le> quantity i"
    and "length cartItems < 2 ^ 32"
    and "(of_nat (length cartItems) + 1) * true_total cartItems \<le> 2 ^ 44"
  shows "\<exists>t. getTotalPrice cartItems = Some t \<and>
           \<bar>t - true_total cartItems\<bar> \<le> (of_nat (length cartItems) + 1) * true_total cartItems / 2 ^ 52 \<and>
           \<bar>t - true_total cartItems\<bar> \<le> 1 / 256"
proof -
  from getTotalPrice_within[OF assms] obtain t where t: "getTotalPrice cartItems = Some t"
    "\<bar>t - true_total cartItems\<bar> \<le> (of_nat (length cartItems) + 1) * true_total cartItems / 2 ^ 52"
    by blast
  have "(of_nat (length cartItems) + 1) * true_total cartItems / 2 ^ 52 \<le> 2 ^ 44 / 2 ^ 52"
    using assms(3) by (rule divide_right_mono) simp
  also have "\<dots> = (1::rat) / 256" by simp
  finally have "(of_nat (length cartItems) + 1) * true_total cartItems / 2 ^ 52 \<le> 1 / 256" .
  with t(2) have "\<bar>t - true_total cartItems\<bar> \<le> 1 / 256" by (rule order_trans)
  with t show ?thesis by blast
qed

text \<open>
  Claim C5, as stated, fails. The total is computed in doubles: with the prices \<open>2^53\<close>
  and \<open>1\<close> the sum \<open>2^53 + 1\<close> rounds to \<open>2^53\<close>, one unit away from the true total.
\<close>

theorem C5_total_counterexample:
  "getTotalPrice costly = Some 9007199254740992
   \<and> true_total costly = 9007199254740993"
proof -
  have a: "double_round 9007199254740992 = 9007199254740992"
    using double_round_of_int[of 9007199254740992] by simp
  have b: "double_round 1 = 1" using double_round_of_int[of 1] by simp
  show ?thesis
    by (simp add: costly_def getTotalPrice_def total_plus_def double_mul_def double_add_def Let_def
        a b double_round_example true_total_def)
qed

text \<open>
  Claim C5, amended. \<open>getTotalPrice\<close> is the sum from left to right of price times
  quantity in the arithmetic of doubles, every product and every partial sum rounded to
  the nearest double, and \<open>0\<close> for the empty cart. For a cart of \<open>n\<close> items, fewer than
  \<open>2^32\<close>, with prices that are \<open>0\<close> or normal and quantities that are not negative, it
  departs from the true total by at most \<open>(n + 1) * total / 2^52\<close>, which is at most
  \<open>1/256\<close>, less than half a cent, as long as \<open>(n + 1) * total \<le> 2^44\<close>. It is the
  true total when the prices are integers that are not negative and the true total is
  at most \<open>2^53\<close>.
\<close>

theorem C5_total_within_half_a_cent:
  "getTotalPrice [] = Some 0
   \<and> ((\<forall>i\<in>set cartItems. normal (price i) \<and> 0 \<le> quantity i) \<and>
       length cartItems < 2 ^ 32 \<and>
       (of_nat (length cartItems) + 1) * true_total cartItems \<le> 2 ^ 44 \<longrightarrow>
        (\<exists>t. getTotalPrice cartItems = Some t \<and>
           \<bar>t - true_total cartItems\<bar> \<le> (of_nat (length cartItems) + 1) * true_total cartItems / 2 ^ 52 \<and>
           \<bar>t - true_total cartItems\<bar> \<le> 1 / 256))
   \<and> ((\<forall>i\<in>set cartItems. of_int \<lfloor>price i\<rfloor> = price i \<and> 0 \<le> price i \<and> 0 \<le> quantity i) \<and>
       true_total cartItems \<le> 2 ^ 53 \<longrightarrow>
        getTotalPrice cartItems = Some (true_total cartItems))"
  using getTotalPrice_empty getTotalPrice_half_cent[of cartItems]
    getTotalPrice_exact_integers[of cartItems]
  by blast

theorem C5_total_within_half_a_cent_witness:
  "true_total [widget_item 2, gadget_item 3] = 109 / 2
   \<and> (\<exists>t. getTotalPrice [widget_item 2, gadget_item 3] = Some t \<and> \<bar>t - 109 / 2\<bar> \<le> 1 / 256)
   \<and> getTotalPrice [gadget_item 3, gadget_item 7] = Some 50"
proof -
  have tt: "true_total [widget_item 2, gadget_item 3] = 109 / 2"
    "true_total [gadget_item 3, gadget_item 7] = 50"
    by (simp_all add: true_total_def widget_item_def gadget_item_def)
  have h1: "(\<forall>i\<in>set [widget_item 2, gadget_item 3]. normal (price i) \<and> 0 \<le> quantity i) \<and>
      length [widget_item 2, gadget_item 3] < 2 ^ 32 \<and>
      (of_nat (length [widget_item 2, gadget_item 3]) + 1) * true_total [widget_item 2, gadget_item 3] \<le> 2 ^ 44"
    by (simp add: tt) (simp add: widget_item_def gadget_item_def normal_def)
  have h2: "(\<forall>i\<in>set [gadget_item 3, gadget_item 7].
        of_int \<lfloor>price i\<rfloor> = price i \<and> 0 \<le> price i \<and> 0 \<le> quantity i) \<and>
      true_total [gadget_item 3, gadget_item 7] \<le> 2 ^ 53"
    by (simp add: tt) (simp add: gadget_item_def)
  from h1 C5_total_within_half_a_cent[of "[widget_item 2, gadget_item 3]"]
  have a: "\<exists>t. getTotalPrice [widget_item 2, gadget_item 3] = Some t \<and> \<bar>t - 109 / 2\<bar> \<le> 1 / 256"
    unfolding tt by blast
  from h2 C5_total_within_half_a_cent[of "[gadget_item 3, gadget_item 7]"]
  have b: "getTotalPrice [gadget_item 3, gadget_item 7] = Some 50"
    unfolding tt by blast
  from tt a b show ?thesis by blast
qed

subsection \<open>Unique ids\<close>

text \<open>
  The operations on the cart keep the ids of the line items distinct, in the state of
  the cart screen and in the persisted cart of every reachable state. \<open>toggleWishlist\<close>
  of the shop screen keeps the ids of its state distinct, and two toggles give back the
  set; \<open>toggleWishlist\<close> of the product screen toggles the persisted list when its flag
  agrees with that list.
\<close>

lemma newCart_idents: "x \<in> set (newCart k inc c) \<Longrightarrow> ident x \<in> ident ` set c"
  by (induction c) (auto simp add: newCart_Nil newCart_Cons split: if_splits)

lemma newCart_distinct: "distinct (map ident c) \<Longrightarrow> distinct (map ident (newCart k inc c))"
proof (induction c)
  case Nil
  then show ?case by (simp add: newCart_Nil)
next
  case (Cons x xs)
  then show ?case by (auto simp add: newCart_Cons dest: newCart_idents)
qed

lemma addToCart_items_idents: "ident ` set (addToCart_items p c) = insert (ident p) (ident ` set c)"
  by (induction c) (auto simp add: addToCart_items_Nil addToCart_items_Cons)

lemma addToCart_items_distinct: "distinct (map ident c) \<Longrightarrow> distinct (map ident (addToCart_items p c))"
proof (induction c)
  case Nil
  then show ?case by (simp add: addToCart_items_Nil)
next
  case (Cons x xs)
  then show ?case using addToCart_items_idents[of p xs] by (auto simp add: addToCart_items_Cons)
qed

lemma reachable_distinct:
  assumes "reachable w m"
  shows "distinct (map ident m) \<and> (\<exists>c. persisted_cart w = Some c \<and> distinct (map ident c))"
  by (rule reachable_invariant[OF assms, where P = "\<lambda>c. distinct (map ident c)"])
     (simp_all add: newCart_distinct addToCart_items_distinct distinct_map_filter)

lemma Shop_toggleWishlist_state:
  "state_of (Shop_toggleWishlist k w wishlist) =
     (if k \<in> set wishlist then filter (\<lambda>i. i \<noteq> k) wishlist else wishlist @ [k])"
  by (simp add: Shop_toggleWishlist_def Let_def setItem_def caught_def done_with_def)

lemma Shop_toggleWishlist_distinct:
  "distinct wishlist \<Longrightarrow> distinct (state_of (Shop_toggleWishlist k w wishlist))"
  by (simp add: Shop_toggleWishlist_state)

lemma Shop_toggleWishlist_twice:
  "set (state_of (Shop_toggleWishlist k w' (state_of (Shop_toggleWishlist k w wishlist)))) = set wishlist"
  by (auto simp add: Shop_toggleWishlist_state)

lemma ProductDetails_toggleWishlist_in_step:
  assumes "\<not> read_fails w" "\<not> write_fails w" "persisted_wishlist w = Some wishlist"
    "isInWishlist = (k \<in> set wishlist)"
  shows "persisted_wishlist (world_of (ProductDetails_toggleWishlist k w isInWishlist)) =
           Some (if k \<in> set wishlist then filter (\<lambda>i. i \<noteq> k) wishlist else wishlist @ [k])
         \<and> state_of (ProductDetails_toggleWishlist k w isInWishlist) = (k \<notin> set wishlist)"
proof -
  from assms(3) obtain v where "parse_or_empty (disk w ''wishlist'') = Inr v" "as_ids v = Some wishlist"
    by (auto simp add: persisted_wishlist_def split: sum.splits)
  with assms(1,2,4) show ?thesis
    by (simp add: ProductDetails_toggleWishlist_def getItem_def setItem_def done_with_def
        persisted_wishlist_def parse_or_empty_def truthy_def JSON_stringify_def JSON_parse_def
        as_ids_ids_json)
qed

end
